theory Spec2Isabelle
  imports Complex_Main
begin

section \<open>JavaScript values\<close>

text \<open>
  A JavaScript \<open>number\<close> is modelled as a real number or one of the three special
  values of IEEE arithmetic. Finite arithmetic is exact (rounding and overflow to
  infinity are not modelled, and the sign of zero is not tracked: a zero divisor counts as
  \<open>+0\<close>); what the model keeps is where the code divides by zero or meets \<open>NaN\<close>,
  on which the behaviour of the statistics at their edge cases depends.
\<close>

datatype jsnum = Fin real | PInf | NInf | NaN

fun jneg :: "jsnum \<Rightarrow> jsnum" where
  "jneg (Fin a) = Fin (- a)"
| "jneg PInf = NInf"
| "jneg NInf = PInf"
| "jneg NaN = NaN"

fun jadd :: "jsnum \<Rightarrow> jsnum \<Rightarrow> jsnum" where
  "jadd NaN _ = NaN"
| "jadd _ NaN = NaN"
| "jadd (Fin a) (Fin b) = Fin (a + b)"
| "jadd (Fin a) PInf = PInf"
| "jadd (Fin a) NInf = NInf"
| "jadd PInf (Fin b) = PInf"
| "jadd NInf (Fin b) = NInf"
| "jadd PInf PInf = PInf"
| "jadd NInf NInf = NInf"
| "jadd PInf NInf = NaN"
| "jadd NInf PInf = NaN"

definition jsub :: "jsnum \<Rightarrow> jsnum \<Rightarrow> jsnum" where
  "jsub a b = jadd a (jneg b)"

text \<open>The sign of an infinite or finite non-zero value; \<open>None\<close> for zero and \<open>NaN\<close>.\<close>

fun jsign :: "jsnum \<Rightarrow> bool option" where
  "jsign (Fin a) = (if a = 0 then None else Some (0 < a))"
| "jsign PInf = Some True"
| "jsign NInf = Some False"
| "jsign NaN = None"

fun jmul :: "jsnum \<Rightarrow> jsnum \<Rightarrow> jsnum" where
  "jmul NaN _ = NaN"
| "jmul _ NaN = NaN"
| "jmul (Fin a) (Fin b) = Fin (a * b)"
| "jmul x y =
     (case (jsign x, jsign y) of
        (Some s, Some t) \<Rightarrow> (if s = t then PInf else NInf)
      | _ \<Rightarrow> NaN)"

fun jdiv :: "jsnum \<Rightarrow> jsnum \<Rightarrow> jsnum" where
  "jdiv NaN _ = NaN"
| "jdiv _ NaN = NaN"
| "jdiv (Fin a) (Fin b) =
     (if b \<noteq> 0 then Fin (a / b)
      else if a = 0 then NaN
      else if 0 < a then PInf else NInf)"
| "jdiv (Fin a) PInf = Fin 0"
| "jdiv (Fin a) NInf = Fin 0"
| "jdiv PInf (Fin b) = (if 0 \<le> b then PInf else NInf)"
| "jdiv NInf (Fin b) = (if 0 \<le> b then NInf else PInf)"
| "jdiv PInf PInf = NaN"
| "jdiv PInf NInf = NaN"
| "jdiv NInf PInf = NaN"
| "jdiv NInf NInf = NaN"

fun jabs :: "jsnum \<Rightarrow> jsnum" where
  "jabs (Fin a) = Fin \<bar>a\<bar>"
| "jabs PInf = PInf"
| "jabs NInf = PInf"
| "jabs NaN = NaN"

fun jsqrt :: "jsnum \<Rightarrow> jsnum" where
  "jsqrt (Fin a) = (if a < 0 then NaN else Fin (sqrt a))"
| "jsqrt PInf = PInf"
| "jsqrt NInf = NaN"
| "jsqrt NaN = NaN"

text \<open>The comparison \<open>a < b\<close>: false as soon as one side is \<open>NaN\<close>.\<close>

fun jlt :: "jsnum \<Rightarrow> jsnum \<Rightarrow> bool" where
  "jlt NaN _ = False"
| "jlt _ NaN = False"
| "jlt (Fin a) (Fin b) = (a < b)"
| "jlt (Fin a) PInf = True"
| "jlt (Fin a) NInf = False"
| "jlt PInf _ = False"
| "jlt NInf PInf = True"
| "jlt NInf (Fin b) = True"
| "jlt NInf NInf = False"

definition jgt :: "jsnum \<Rightarrow> jsnum \<Rightarrow> bool" where
  "jgt a b = jlt b a"

text \<open>\<open>Math.max\<close> and \<open>Math.min\<close> of two arguments: \<open>NaN\<close> if either is.\<close>

fun jmax :: "jsnum \<Rightarrow> jsnum \<Rightarrow> jsnum" where
  "jmax NaN _ = NaN"
| "jmax _ NaN = NaN"
| "jmax a b = (if jlt a b then b else a)"

fun jmin :: "jsnum \<Rightarrow> jsnum \<Rightarrow> jsnum" where
  "jmin NaN _ = NaN"
| "jmin _ NaN = NaN"
| "jmin a b = (if jlt b a then b else a)"

definition isNaN :: "jsnum \<Rightarrow> bool" where
  "isNaN a = (a = NaN)"

definition isFinite :: "jsnum \<Rightarrow> bool" where
  "isFinite a = (case a of Fin _ \<Rightarrow> True | _ \<Rightarrow> False)"

text \<open>
  A value of type \<open>any\<close>. An object keeps its keys in insertion order, as
  \<open>Object.keys\<close> and \<open>for ... in\<close> enumerate them; a \<open>Date\<close> is its time in
  milliseconds (\<open>NaN\<close> for an invalid date).
\<close>

datatype jsval =
    JNull
  | JUndefined
  | JBool bool
  | JNum jsnum
  | JStr string
  | JDate jsnum
  | JArr "jsval list"
  | JObj "(string \<times> jsval) list"

type_synonym row = "(string \<times> jsval) list"

text \<open>
  Property access \<open>row[field]\<close>: \<open>undefined\<close> for a key the object does not have.
  The properties that an object inherits from \<open>Object.prototype\<close> are not modelled.
\<close>

definition getField :: "row \<Rightarrow> string \<Rightarrow> jsval" where
  "getField r k = (case map_of r k of None \<Rightarrow> JUndefined | Some v \<Rightarrow> v)"

section \<open>The Report entity\<close>

datatype ReportFormat = PDF | EXCEL | CSV | HTML | JSON

datatype ReportStatus = PENDING | PROCESSING | ANALYZING | COMPLETED | FAILED

datatype ReportType =
  SALES | INVENTORY | FINANCIAL | USERS | LOGS | ANALYTICS | PREDICTIVE | CUSTOM

datatype InsightType = Anomaly | Trend | Suggestion | Forecast | Correlation

datatype Importance = high | medium | low

datatype VisualizationType = vline | vbar | vgauge | vnumber | vtrend

record KPISuggestion =
  kname :: string
  kdescription :: string
  formula :: string
  importance :: Importance
  category :: string
  visualizationType :: VisualizationType
  currentValue :: "jsnum option"
  targetValue :: "jsnum option"

text \<open>A point of an anomaly result, the trend of a forecast and a correlated pair of fields
  (they are defined by the analysis services and the worker).\<close>

record AnomalyPoint =
  pindex :: nat
  pvalue :: jsnum
  score :: jsnum
  isAnomaly :: bool

datatype TrendDirection = upward | downward | stable

record FieldCorrelation =
  field1 :: string
  field2 :: string
  coefficient :: jsnum
  strength :: string

text \<open>
  The payload \<open>data\<close> of an insight: the objects that the analysis worker attaches, or
  any other value.
\<close>

datatype InsightData =
    AnomalyData string "AnomalyPoint list"
  | ForecastData string "jsnum list" TrendDirection string
  | KPIData "KPISuggestion list"
  | CorrelationData FieldCorrelation
  | OtherData jsval

record AIInsight =
  itype :: InsightType
  title :: string
  description :: string
  confidence :: jsnum
  idata :: "InsightData option"
  actionable :: bool
  timestamp :: int

record DataQualityMetrics =
  completeness :: jsnum
  accuracy :: jsnum
  consistency :: jsnum
  outliers :: nat
  missingValues :: nat
  duplicates :: nat

record ReportMetadata =
  mtitle :: string
  mdescription :: "string option"
  author :: "string option"
  company :: "string option"
  logo :: "string option"
  filters :: "jsval option"
  columns :: "string list option"
  chartConfig :: "jsval option"
  aiInsights :: "AIInsight list option"
  suggestedKPIs :: "KPISuggestion list option"
  dataQuality :: "DataQualityMetrics option"
  dataSource :: "string option"
  recordCount :: "nat option"

text \<open>
  The fields of the class \<open>Report\<close>. An optional field is an \<open>option\<close>; a date is its
  time in milliseconds.
\<close>

record Report =
  rid :: string
  userId :: string
  rtype :: ReportType
  format :: ReportFormat
  metadata :: ReportMetadata
  status :: ReportStatus
  filePath :: "string option"
  fileSize :: "int option"
  downloadUrl :: "string option"
  error :: "string option"
  createdAt :: int
  completedAt :: "int option"
  expiresAt :: "int option"
  emailTo :: "string option"
  downloadCount :: nat
  aiAnalysisEnabled :: bool
  processingTime :: "int option"

definition markAsProcessing :: "Report \<Rightarrow> Report" where
  "markAsProcessing r = r\<lparr>status := PROCESSING\<rparr>"

definition markAsAnalyzing :: "Report \<Rightarrow> Report" where
  "markAsAnalyzing r = r\<lparr>status := ANALYZING\<rparr>"

text \<open>
  \<open>markAsCompleted\<close> reads the clock twice: \<open>now\<close> is the value of \<open>new Date()\<close>
  and \<open>now'\<close> the value of the later \<open>Date.now()\<close>.
\<close>

definition markAsCompleted :: "int \<Rightarrow> int \<Rightarrow> string \<Rightarrow> int \<Rightarrow> string \<Rightarrow> Report \<Rightarrow> Report" where
  "markAsCompleted now now' fp fs url r =
     r\<lparr>status := COMPLETED,
       filePath := Some fp,
       fileSize := Some fs,
       downloadUrl := Some url,
       completedAt := Some now,
       processingTime := Some (now - createdAt r),
       expiresAt := Some (now' + 7 * 24 * 60 * 60 * 1000)\<rparr>"

definition markAsFailed :: "int \<Rightarrow> string \<Rightarrow> Report \<Rightarrow> Report" where
  "markAsFailed now e r =
     r\<lparr>status := FAILED, error := Some e, completedAt := Some now\<rparr>"

definition addAIInsight :: "AIInsight \<Rightarrow> Report \<Rightarrow> Report" where
  "addAIInsight i r =
     r\<lparr>metadata := (metadata r)\<lparr>aiInsights :=
        Some ((case aiInsights (metadata r) of None \<Rightarrow> [] | Some is \<Rightarrow> is) @ [i])\<rparr>\<rparr>"

definition addKPISuggestions :: "KPISuggestion list \<Rightarrow> Report \<Rightarrow> Report" where
  "addKPISuggestions kpis r = r\<lparr>metadata := (metadata r)\<lparr>suggestedKPIs := Some kpis\<rparr>\<rparr>"

definition setDataQuality :: "DataQualityMetrics \<Rightarrow> Report \<Rightarrow> Report" where
  "setDataQuality q r = r\<lparr>metadata := (metadata r)\<lparr>dataQuality := Some q\<rparr>\<rparr>"

text \<open>
  A call of one of the lifecycle operations, with its arguments and the clock values it
  reads.
\<close>

datatype ReportOp =
    MarkAsProcessing
  | MarkAsAnalyzing
  | MarkAsCompleted int int string int string
  | MarkAsFailed int string
  | AddAIInsight AIInsight
  | AddKPISuggestions "KPISuggestion list"
  | SetDataQuality DataQualityMetrics

fun applyOp :: "ReportOp \<Rightarrow> Report \<Rightarrow> Report" where
  "applyOp MarkAsProcessing r = markAsProcessing r"
| "applyOp MarkAsAnalyzing r = markAsAnalyzing r"
| "applyOp (MarkAsCompleted now now' fp fs url) r = markAsCompleted now now' fp fs url r"
| "applyOp (MarkAsFailed now e) r = markAsFailed now e r"
| "applyOp (AddAIInsight i) r = addAIInsight i r"
| "applyOp (AddKPISuggestions k) r = addKPISuggestions k r"
| "applyOp (SetDataQuality q) r = setDataQuality q r"

fun applyOps :: "ReportOp list \<Rightarrow> Report \<Rightarrow> Report" where
  "applyOps [] r = r"
| "applyOps (x # xs) r = applyOps xs (applyOp x r)"

definition isTransition :: "ReportOp \<Rightarrow> bool" where
  "isTransition x =
     (case x of
        MarkAsProcessing \<Rightarrow> True
      | MarkAsAnalyzing \<Rightarrow> True
      | MarkAsCompleted _ _ _ _ _ \<Rightarrow> True
      | MarkAsFailed _ _ \<Rightarrow> True
      | _ \<Rightarrow> False)"

text \<open>The state a transition call writes into \<open>status\<close>.\<close>

fun target :: "ReportOp \<Rightarrow> ReportStatus option" where
  "target MarkAsProcessing = Some PROCESSING"
| "target MarkAsAnalyzing = Some ANALYZING"
| "target (MarkAsCompleted _ _ _ _ _) = Some COMPLETED"
| "target (MarkAsFailed _ _) = Some FAILED"
| "target _ = None"

definition terminal :: "ReportStatus \<Rightarrow> bool" where
  "terminal s = (s = COMPLETED \<or> s = FAILED)"

definition hasArtifact :: "Report \<Rightarrow> bool" where
  "hasArtifact r = (filePath r \<noteq> None \<or> fileSize r \<noteq> None \<or> downloadUrl r \<noteq> None)"

definition hasError :: "Report \<Rightarrow> bool" where
  "hasError r = (error r \<noteq> None)"

text \<open>The invariant of the data model: artifact and error exclude each other, and a
  report that is not terminal has neither.\<close>

definition artifactErrorInv :: "Report \<Rightarrow> bool" where
  "artifactErrorInv r =
     (\<not> (hasArtifact r \<and> hasError r) \<and>
      (\<not> terminal (status r) \<longrightarrow> \<not> hasArtifact r \<and> \<not> hasError r))"

text \<open>
  A report as the submission path creates it: \<open>PENDING\<close>, no artifact field, no error.
\<close>

definition created :: "Report \<Rightarrow> bool" where
  "created r =
     (status r = PENDING \<and> filePath r = None \<and> fileSize r = None \<and>
      downloadUrl r = None \<and> error r = None)"

text \<open>
  The discipline of the callers that the entity does not enforce: no transition is
  applied to a report whose status is terminal.
\<close>

fun disciplined :: "ReportOp list \<Rightarrow> Report \<Rightarrow> bool" where
  "disciplined [] r = True"
| "disciplined (x # xs) r =
     ((isTransition x \<longrightarrow> \<not> terminal (status r)) \<and> disciplined xs (applyOp x r))"

text \<open>
  The invariant that the disciplined runs keep: a report that is not terminal has neither
  artifact nor error, a \<open>COMPLETED\<close> one has no error and a \<open>FAILED\<close> one no artifact.
\<close>

definition lifecycleInv :: "Report \<Rightarrow> bool" where
  "lifecycleInv r =
     ((\<not> terminal (status r) \<longrightarrow> \<not> hasArtifact r \<and> \<not> hasError r) \<and>
      (status r = COMPLETED \<longrightarrow> \<not> hasError r) \<and>
      (status r = FAILED \<longrightarrow> \<not> hasArtifact r))"

text \<open>A concrete report for the closed theorems.\<close>

definition exampleMetadata :: ReportMetadata where
  "exampleMetadata =
     \<lparr>mtitle = ''Sales'', mdescription = None, author = None, company = None, logo = None,
      filters = None, columns = None, chartConfig = None, aiInsights = None,
      suggestedKPIs = None, dataQuality = None, dataSource = None, recordCount = Some 0\<rparr>"

definition exampleReport :: Report where
  "exampleReport =
     \<lparr>rid = ''r1'', userId = ''u1'', rtype = SALES, format = PDF, metadata = exampleMetadata,
      status = PENDING, filePath = None, fileSize = None, downloadUrl = None, error = None,
      createdAt = 1000, completedAt = None, expiresAt = None, emailTo = None,
      downloadCount = 0, aiAnalysisEnabled = True, processingTime = None\<rparr>"

section \<open>Errors, configuration and strings\<close>

text \<open>
  Every exception of the source is an \<open>Error\<close> object; the model keeps its message. A
  message that the source builds from a template is built here the same way. Characters
  are Latin-1 bytes, so the accented letters of the Spanish messages are single
  characters, as they are single UTF-16 units in the source.
\<close>

datatype error = Error string

fun message :: "error \<Rightarrow> string" where
  "message (Error m) = m"

fun showNat :: "nat \<Rightarrow> string" where
  "showNat n =
     (if n < 10 then [char_of (48 + n)]
      else showNat (n div 10) @ [char_of (48 + n mod 10)])"

definition showInt :: "int \<Rightarrow> string" where
  "showInt i = (if i < 0 then CHR ''-'' # showNat (nat (- i)) else showNat (nat i))"

text \<open>The white space that \<open>String.prototype.trim\<close> removes, among the Latin-1 characters.\<close>

definition isWhiteSpace :: "char \<Rightarrow> bool" where
  "isWhiteSpace c = (c \<in> set [CHR 0x09, CHR 0x0A, CHR 0x0B, CHR 0x0C, CHR 0x0D, CHR 0x20, CHR 0xA0])"

definition trim :: "string \<Rightarrow> string" where
  "trim s = rev (dropWhile isWhiteSpace (rev (dropWhile isWhiteSpace s)))"

text \<open>
  The environment variables the code reads, after \<open>parseInt\<close> (\<open>None\<close> when the result
  is \<open>NaN\<close>, with which every comparison is false) or after the comparison with
  \<open>'true'\<close>, defaults applied.
\<close>

record Config =
  MAX_ROWS_EXCEL :: "int option"
  MAX_ROWS_CSV :: "int option"
  ML_MIN_DATA_POINTS :: "int option"
  QUEUE_MAX_RETRIES :: "int option"
  ENABLE_ANOMALY_DETECTION :: bool
  ENABLE_FORECASTING :: bool
  ENABLE_KPI_SUGGESTIONS :: bool

definition defaultConfig :: Config where
  "defaultConfig =
     \<lparr>MAX_ROWS_EXCEL = Some 100000, MAX_ROWS_CSV = Some 1000000,
      ML_MIN_DATA_POINTS = Some 100, QUEUE_MAX_RETRIES = Some 3,
      ENABLE_ANOMALY_DETECTION = True, ENABLE_FORECASTING = True,
      ENABLE_KPI_SUGGESTIONS = True\<rparr>"

section \<open>ReportDomainService\<close>

definition formatName :: "ReportFormat \<Rightarrow> string" where
  "formatName f =
     (case f of PDF \<Rightarrow> ''PDF'' | EXCEL \<Rightarrow> ''EXCEL'' | CSV \<Rightarrow> ''CSV'' | HTML \<Rightarrow> ''HTML''
      | JSON \<Rightarrow> ''JSON'')"

text \<open>
  \<open>validateReport\<close>. Its last check, that the format is a value of the enumeration,
  cannot fail on a report of this type.
\<close>

definition validateReport :: "Report \<Rightarrow> error + unit" where
  "validateReport report =
     (if userId report = [] \<or> length (trim (userId report)) = 0
        then Inl (Error ''User ID is required'')
      else if mtitle (metadata report) = [] \<or> length (trim (mtitle (metadata report))) = 0
        then Inl (Error ''Report title is required'')
      else if length (mtitle (metadata report)) > 200
        then Inl (Error ''Report title must be less than 200 characters'')
      else Inr ())"

definition getMaxRows :: "Config \<Rightarrow> ReportFormat \<Rightarrow> int option" where
  "getMaxRows cfg f =
     (case f of
        EXCEL \<Rightarrow> MAX_ROWS_EXCEL cfg
      | CSV \<Rightarrow> MAX_ROWS_CSV cfg
      | PDF \<Rightarrow> Some 10000
      | HTML \<Rightarrow> Some 50000
      | JSON \<Rightarrow> Some 1000000)"

definition shouldEnableMLAnalysis :: "Config \<Rightarrow> nat \<Rightarrow> bool" where
  "shouldEnableMLAnalysis cfg rowCount =
     (case ML_MIN_DATA_POINTS cfg of None \<Rightarrow> False | Some m \<Rightarrow> int rowCount \<ge> m)"

section \<open>MongoReportRepository\<close>

text \<open>
  The collection, keyed by \<open>_id\<close>, and whether \<open>connect\<close> has set it. \<open>insertOne\<close>
  rejects a key that is already there; \<open>updateOne\<close> changes nothing when no document
  has the key; \<open>docToReport\<close> gives the report the \<open>_id\<close> of its document.
\<close>

record Repository =
  connected :: bool
  docs :: "string \<rightharpoonup> Report"

definition notConnected :: error where
  "notConnected = Error ''Database not connected''"

definition duplicateKey :: error where
  "duplicateKey = Error ''E11000 duplicate key error''"

definition save :: "Report \<Rightarrow> Repository \<Rightarrow> error + Repository" where
  "save report db =
     (if \<not> connected db then Inl notConnected
      else if docs db (rid report) \<noteq> None then Inl duplicateKey
      else Inr (db\<lparr>docs := (docs db)(rid report \<mapsto> report)\<rparr>))"

definition findById :: "string \<Rightarrow> Repository \<Rightarrow> error + Report option" where
  "findById i db =
     (if \<not> connected db then Inl notConnected
      else Inr (map_option (\<lambda>doc. doc\<lparr>rid := i\<rparr>) (docs db i)))"

definition update :: "Report \<Rightarrow> Repository \<Rightarrow> error + Repository" where
  "update report db =
     (if \<not> connected db then Inl notConnected
      else if docs db (rid report) = None then Inr db
      else Inr (db\<lparr>docs := (docs db)(rid report \<mapsto> report)\<rparr>))"

section \<open>Queues\<close>

datatype JobData =
    GenerateReportJob string "row list" string ReportFormat ReportMetadata "string option"
  | AnalyzeDataJob string "row list" bool bool bool

record JobsOptions =
  jobId :: string
  attempts :: "int option"
  backoffDelay :: nat

record Job =
  jobName :: string
  jobData :: JobData
  jobOpts :: JobsOptions

text \<open>
  A queue of the job library: \<open>add\<close> throws when the queue cannot be reached
  (\<open>qfailure\<close> is the error it throws then), ignores a job whose id is already queued
  and appends any other.
\<close>

record Queue =
  qfailure :: "error option"
  qjobs :: "Job list"

definition add :: "string \<Rightarrow> JobData \<Rightarrow> JobsOptions \<Rightarrow> Queue \<Rightarrow> error + Queue" where
  "add name d opts q =
     (case qfailure q of
        Some e \<Rightarrow> Inl e
      | None \<Rightarrow>
          if jobId opts \<in> set (map (\<lambda>j. jobId (jobOpts j)) (qjobs q)) then Inr q
          else Inr (q\<lparr>qjobs := qjobs q @ [\<lparr>jobName = name, jobData = d, jobOpts = opts\<rparr>]\<rparr>))"

record World =
  repo :: Repository
  reportQueue :: Queue
  mlQueue :: Queue

section \<open>GenerateReportUseCase\<close>

record GenerateReportDTO =
  dto_userId :: string
  dto_type :: ReportType
  dto_format :: ReportFormat
  dto_title :: string
  dto_description :: "string option"
  dto_filters :: "jsval option"
  dto_columns :: "string list option"
  dto_chartConfig :: "jsval option"
  dto_emailTo :: "string option"
  dto_aiAnalysisEnabled :: "bool option"
  dto_dataSource :: "string option"
  dto_data :: "row list"

record ReportResponseMetadata =
  res_title :: string
  res_description :: "string option"
  res_recordCount :: "nat option"
  res_dataQuality :: "DataQualityMetrics option"
  res_aiInsights :: "AIInsight list option"
  res_suggestedKPIs :: "KPISuggestion list option"

record ReportResponseDTO =
  res_id :: string
  res_userId :: string
  res_type :: ReportType
  res_format :: ReportFormat
  res_status :: ReportStatus
  res_metadata :: ReportResponseMetadata
  res_downloadUrl :: "string option"
  res_fileSize :: "int option"
  res_createdAt :: int
  res_completedAt :: "int option"
  res_expiresAt :: "int option"
  res_downloadCount :: nat
  res_processingTime :: "int option"
  res_error :: "string option"

definition toDTO :: "Report \<Rightarrow> ReportResponseDTO" where
  "toDTO report =
     \<lparr>res_id = rid report, res_userId = userId report, res_type = rtype report,
      res_format = format report, res_status = status report,
      res_metadata =
        \<lparr>res_title = mtitle (metadata report),
         res_description = mdescription (metadata report),
         res_recordCount = recordCount (metadata report),
         res_dataQuality = dataQuality (metadata report),
         res_aiInsights = aiInsights (metadata report),
         res_suggestedKPIs = suggestedKPIs (metadata report)\<rparr>,
      res_downloadUrl = downloadUrl report, res_fileSize = fileSize report,
      res_createdAt = createdAt report, res_completedAt = completedAt report,
      res_expiresAt = expiresAt report, res_downloadCount = downloadCount report,
      res_processingTime = processingTime report, res_error = error report\<rparr>"

text \<open>The entity that \<open>execute\<close> builds from the request, a fresh id and the clock.\<close>

definition newReport :: "string \<Rightarrow> int \<Rightarrow> GenerateReportDTO \<Rightarrow> Report" where
  "newReport uuid now dto =
     \<lparr>rid = uuid, userId = dto_userId dto, rtype = dto_type dto, format = dto_format dto,
      metadata =
        \<lparr>mtitle = dto_title dto, mdescription = dto_description dto, author = None,
         company = None, logo = None, filters = dto_filters dto,
         columns = dto_columns dto, chartConfig = dto_chartConfig dto, aiInsights = None,
         suggestedKPIs = None, dataQuality = None, dataSource = dto_dataSource dto,
         recordCount = Some (length (dto_data dto))\<rparr>,
      status = PENDING, filePath = None, fileSize = None, downloadUrl = None, error = None,
      createdAt = now, completedAt = None, expiresAt = None, emailTo = dto_emailTo dto,
      downloadCount = 0,
      aiAnalysisEnabled = (case dto_aiAnalysisEnabled dto of None \<Rightarrow> True | Some b \<Rightarrow> b),
      processingTime = None\<rparr>"

definition rowLimitMessage :: "nat \<Rightarrow> ReportFormat \<Rightarrow> int \<Rightarrow> string" where
  "rowLimitMessage n f m =
     ''El n'' @ [CHR 0xFA] @ ''mero de registros ('' @ showNat n @ '') excede el l''
       @ [CHR 0xED] @ ''mite para formato '' @ formatName f @ '' ('' @ showInt m @ '')''"

definition checkMaxRows :: "Config \<Rightarrow> GenerateReportDTO \<Rightarrow> error option" where
  "checkMaxRows cfg dto =
     (case getMaxRows cfg (dto_format dto) of
        None \<Rightarrow> None
      | Some m \<Rightarrow>
          if int (length (dto_data dto)) > m
          then Some (Error (rowLimitMessage (length (dto_data dto)) (dto_format dto) m))
          else None)"

definition generateJob :: "Report \<Rightarrow> GenerateReportDTO \<Rightarrow> JobData" where
  "generateJob report dto =
     GenerateReportJob (rid report) (dto_data dto) (dto_userId dto) (dto_format dto)
       (metadata report) (dto_emailTo dto)"

definition analyzeJob :: "Config \<Rightarrow> Report \<Rightarrow> GenerateReportDTO \<Rightarrow> JobData" where
  "analyzeJob cfg report dto =
     AnalyzeDataJob (rid report) (dto_data dto) (ENABLE_ANOMALY_DETECTION cfg)
       (ENABLE_FORECASTING cfg) (ENABLE_KPI_SUGGESTIONS cfg)"

text \<open>
  \<open>GenerateReportUseCase.execute\<close>. The result is the value returned or the error
  thrown, together with the repository and the queues as the call leaves them.
\<close>

definition GenerateReport_execute ::
  "Config \<Rightarrow> string \<Rightarrow> int \<Rightarrow> GenerateReportDTO \<Rightarrow> World \<Rightarrow> (error + ReportResponseDTO) \<times> World" where
  "GenerateReport_execute cfg uuid now dto w =
     (case checkMaxRows cfg dto of
        Some e \<Rightarrow> (Inl e, w)
      | None \<Rightarrow>
        let report = newReport uuid now dto in
        case validateReport report of
          Inl e \<Rightarrow> (Inl e, w)
        | Inr _ \<Rightarrow>
          (case save report (repo w) of
             Inl e \<Rightarrow> (Inl e, w)
           | Inr db \<Rightarrow>
             let w1 = w\<lparr>repo := db\<rparr> in
             (case add ''generate-report'' (generateJob report dto)
                     \<lparr>jobId = rid report, attempts = QUEUE_MAX_RETRIES cfg, backoffDelay = 5000\<rparr>
                     (reportQueue w1) of
                Inl e \<Rightarrow> (Inl e, w1)
              | Inr q \<Rightarrow>
                let w2 = w1\<lparr>reportQueue := q\<rparr> in
                if aiAnalysisEnabled report \<and> shouldEnableMLAnalysis cfg (length (dto_data dto))
                then
                  (case add ''analyze-data'' (analyzeJob cfg report dto)
                          \<lparr>jobId = ''ml-'' @ rid report, attempts = Some 2, backoffDelay = 10000\<rparr>
                          (mlQueue w2) of
                     Inl e \<Rightarrow> (Inl e, w2)
                   | Inr q' \<Rightarrow> (Inr (toDTO report), w2\<lparr>mlQueue := q'\<rparr>))
                else (Inr (toDTO report), w2))))"

text \<open>A concrete request and world for the closed theorems.\<close>

definition exampleDTO :: GenerateReportDTO where
  "exampleDTO =
     \<lparr>dto_userId = ''u1'', dto_type = SALES, dto_format = PDF, dto_title = ''Sales'',
      dto_description = None, dto_filters = None, dto_columns = None,
      dto_chartConfig = None, dto_emailTo = None, dto_aiAnalysisEnabled = None,
      dto_dataSource = None, dto_data = []\<rparr>"

definition queueDown :: World where
  "queueDown =
     \<lparr>repo = \<lparr>connected = True, docs = Map.empty\<rparr>,
      reportQueue = \<lparr>qfailure = Some (Error ''Connection is closed.''), qjobs = []\<rparr>,
      mlQueue = \<lparr>qfailure = None, qjobs = []\<rparr>\<rparr>"

section \<open>AnalyzeDataUseCase\<close>

record AnalyzeDataDTO =
  a_reportId :: string
  a_data :: "row list"
  a_enableAnomalyDetection :: "bool option"
  a_enableForecasting :: "bool option"
  a_enableKPISuggestions :: "bool option"

record AnalysisResult =
  ar_reportId :: string
  ar_insights :: "AIInsight list"
  ar_suggestedKPIs :: "KPISuggestion list"
  ar_dataQuality :: "DataQualityMetrics option"
  ar_processingTime :: int

type_synonym IMLService = "row list \<Rightarrow> AnalyzeDataDTO \<Rightarrow> error + AnalysisResult"

definition analysisErrorMessage :: "error \<Rightarrow> string" where
  "analysisErrorMessage e = ''Error en an'' @ [CHR 0xE1] @ ''lisis de IA: '' @ message e"

text \<open>
  The \<open>try\<close> block of \<open>AnalyzeDataUseCase.execute\<close>: the result returned and the
  repository, or the error thrown with the report as the block had changed it so far.
\<close>

definition analyzeTry ::
  "IMLService \<Rightarrow> int \<Rightarrow> int \<Rightarrow> AnalyzeDataDTO \<Rightarrow> Report \<Rightarrow> Repository
     \<Rightarrow> (error \<times> Report) + (AnalysisResult \<times> Repository)" where
  "analyzeTry ml startTime endTime dto report db =
     (case ml (a_data dto) dto of
        Inl e \<Rightarrow> Inl (e, report)
      | Inr result \<Rightarrow>
          let r1 = foldl (\<lambda>r i. addAIInsight i r) report (ar_insights result);
              r2 = (if length (ar_suggestedKPIs result) > 0
                    then addKPISuggestions (ar_suggestedKPIs result) r1 else r1);
              r3 = (case ar_dataQuality result of
                      Some q \<Rightarrow> setDataQuality q r2 | None \<Rightarrow> r2)
          in case update r3 db of
               Inl e \<Rightarrow> Inl (e, r3)
             | Inr db' \<Rightarrow> Inr (result\<lparr>ar_processingTime := endTime - startTime\<rparr>, db'))"

text \<open>
  \<open>AnalyzeDataUseCase.execute\<close>, with the three clock values it reads: at the start,
  at the end of a successful analysis, and in \<open>markAsFailed\<close>.
\<close>

definition AnalyzeData_execute ::
  "IMLService \<Rightarrow> int \<Rightarrow> int \<Rightarrow> int \<Rightarrow> AnalyzeDataDTO \<Rightarrow> Repository
     \<Rightarrow> (error + AnalysisResult) \<times> Repository" where
  "AnalyzeData_execute ml startTime endTime failTime dto db =
     (case findById (a_reportId dto) db of
        Inl e \<Rightarrow> (Inl e, db)
      | Inr None \<Rightarrow> (Inl (Error ''Reporte no encontrado''), db)
      | Inr (Some report) \<Rightarrow>
          if \<not> aiAnalysisEnabled report
          then (Inl (Error (''El an'' @ [CHR 0xE1] @ ''lisis de IA no est'' @ [CHR 0xE1]
                              @ '' habilitado para este reporte'')), db)
          else
            (case update (markAsAnalyzing report) db of
               Inl e \<Rightarrow> (Inl e, db)
             | Inr db1 \<Rightarrow>
                 (case analyzeTry ml startTime endTime dto (markAsAnalyzing report) db1 of
                    Inr (result, db2) \<Rightarrow> (Inr result, db2)
                  | Inl (e, r) \<Rightarrow>
                      (case update (markAsFailed failTime (analysisErrorMessage e) r) db1 of
                         Inl e' \<Rightarrow> (Inl e', db1)
                       | Inr db3 \<Rightarrow> (Inl e, db3)))))"

definition failingML :: IMLService where
  "failingML d dto = Inl (Error ''model unavailable'')"

definition exampleRepo :: Repository where
  "exampleRepo = \<lparr>connected = True, docs = [''r1'' \<mapsto> exampleReport]\<rparr>"

definition exampleAnalyzeDTO :: AnalyzeDataDTO where
  "exampleAnalyzeDTO =
     \<lparr>a_reportId = ''r1'', a_data = [], a_enableAnomalyDetection = None,
      a_enableForecasting = None, a_enableKPISuggestions = None\<rparr>"

section \<open>Statistics library\<close>

text \<open>
  The services import \<open>mean\<close>, \<open>standardDeviation\<close> and \<open>quantile\<close> from a
  statistics library that is not part of the repository sources. The sequences they
  receive here are sequences of finite numbers.
\<close>

text \<open>
  Modelled from the spec: the library function \<open>mean\<close>, missing from the sources.
  Section 4.1 of the specification describes it as the arithmetic mean of a sequence of
  numbers; the library rejects the empty sequence.
\<close>

definition mean :: "real list \<Rightarrow> error + real" where
  "mean xs =
     (if xs = [] then Inl (Error ''mean requires at least one data point'')
      else Inr (sum_list xs / real (length xs)))"

text \<open>
  Modelled from the spec: the library function \<open>variance\<close>, missing from the sources,
  on which the standard deviation rests: the mean of the squared deviations from the
  mean (the population variance of section 4.1), rejecting the empty sequence.
\<close>

definition variance :: "real list \<Rightarrow> error + real" where
  "variance xs =
     (case mean xs of
        Inl e \<Rightarrow> Inl (Error ''variance requires at least one data point'')
      | Inr m \<Rightarrow> Inr (sum_list (map (\<lambda>x. (x - m)\<^sup>2) xs) / real (length xs)))"

text \<open>
  Modelled from the spec: the library function \<open>standardDeviation\<close>, missing from the
  sources. Section 4.1 of the specification describes it as the population standard
  deviation: the square root of the population variance.
\<close>

definition standardDeviation :: "real list \<Rightarrow> error + real" where
  "standardDeviation xs =
     (case variance xs of Inl e \<Rightarrow> Inl e | Inr v \<Rightarrow> Inr (sqrt v))"

text \<open>
  The library's \<open>quantile\<close> is a parameter of the functions that call it: a function
  from the sequence and the rank to the quantile, or to the error it throws.
\<close>

type_synonym quantileFn = "jsnum list \<Rightarrow> real \<Rightarrow> error + jsnum"

text \<open>
  A quantile for the closed theorems: the order statistic of nearest rank of a sequence
  of finite numbers, which like the library rejects the empty sequence.
\<close>

fun finiteValues :: "jsnum list \<Rightarrow> real list option" where
  "finiteValues [] = Some []"
| "finiteValues (Fin a # xs) = map_option ((#) a) (finiteValues xs)"
| "finiteValues (_ # xs) = None"

definition nearestRank :: quantileFn where
  "nearestRank xs p =
     (if xs = [] then Inl (Error ''quantile requires at least one data point'')
      else case finiteValues xs of
             None \<Rightarrow> Inr NaN
           | Some rs \<Rightarrow>
               Inr (Fin (sort rs ! min (length rs - 1) (nat \<lceil>p * real (length rs)\<rceil> - 1))))"

section \<open>AnomalyDetectionService\<close>

record AnomalyResult =
  anomalies :: "AnomalyPoint list"
  threshold :: real
  amethod :: string
  anomalyCount :: nat
  anomalyPercentage :: jsnum

text \<open>The pairs \<open>(index, value)\<close> that \<open>Array.prototype.map\<close> hands to its callback.\<close>

fun indexed :: "nat \<Rightarrow> 'a list \<Rightarrow> (nat \<times> 'a) list" where
  "indexed i [] = []"
| "indexed i (x # xs) = (i, x) # indexed (Suc i) xs"

definition percentage :: "nat \<Rightarrow> nat \<Rightarrow> jsnum" where
  "percentage count n = jmul (jdiv (Fin (real count)) (Fin (real n))) (Fin 100)"

definition anomalyResult :: "AnomalyPoint list \<Rightarrow> real \<Rightarrow> string \<Rightarrow> nat \<Rightarrow> AnomalyResult" where
  "anomalyResult points t m n =
     \<lparr>anomalies = points, threshold = t, amethod = m,
      anomalyCount = length (filter isAnomaly points),
      anomalyPercentage = percentage (length (filter isAnomaly points)) n\<rparr>"

definition zScorePoint :: "real \<Rightarrow> real \<Rightarrow> real \<Rightarrow> nat \<times> real \<Rightarrow> AnomalyPoint" where
  "zScorePoint avg stdDev t iv =
     (let zScore = jabs (jdiv (Fin (snd iv - avg)) (Fin stdDev))
      in \<lparr>pindex = fst iv, pvalue = Fin (snd iv), score = zScore, isAnomaly = jgt zScore (Fin t)\<rparr>)"

text \<open>
  The service computes the mean, the standard deviation and the quartiles with the
  statistics library, in double arithmetic, where rounding can make the mean of equal
  values differ from the value and their standard deviation differ from 0. The library
  is therefore a parameter of the detection methods: what it returns, or the error it
  throws, on a sequence of finite numbers.
\<close>

type_synonym statFn = "real list \<Rightarrow> error + real"

record StatsLibrary =
  lib_mean :: statFn
  lib_standardDeviation :: statFn
  lib_quantile :: quantileFn

text \<open>
  The library of exact arithmetic: the mean and the standard deviation modelled above,
  with the quantile of nearest rank.
\<close>

definition exactStatistics :: StatsLibrary where
  "exactStatistics =
     \<lparr>lib_mean = mean, lib_standardDeviation = standardDeviation, lib_quantile = nearestRank\<rparr>"

text \<open>\<open>detectWithZScore\<close>, for any statistics library.\<close>

definition detectWithZScoreUsing :: "StatsLibrary \<Rightarrow> real list \<Rightarrow> real \<Rightarrow> error + AnomalyResult" where
  "detectWithZScoreUsing lib xs t =
     (case lib_mean lib xs of
        Inl e \<Rightarrow> Inl e
      | Inr avg \<Rightarrow>
        (case lib_standardDeviation lib xs of
           Inl e \<Rightarrow> Inl e
         | Inr stdDev \<Rightarrow>
             Inr (anomalyResult (map (zScorePoint avg stdDev t) (indexed 0 xs)) t ''zscore''
                    (length xs))))"

text \<open>
  \<open>detectWithZScore\<close> with the mean and the standard deviation of exact arithmetic,
  for the series whose statistics are worked out below.
\<close>

definition detectWithZScore :: "real list \<Rightarrow> real \<Rightarrow> error + AnomalyResult" where
  "detectWithZScore xs t =
     (case mean xs of
        Inl e \<Rightarrow> Inl e
      | Inr avg \<Rightarrow>
        (case standardDeviation xs of
           Inl e \<Rightarrow> Inl e
         | Inr stdDev \<Rightarrow>
             Inr (anomalyResult (map (zScorePoint avg stdDev t) (indexed 0 xs)) t ''zscore''
                    (length xs))))"







definition scenarioB :: "real list" where
  "scenarioB = [100, 120, 115, 300, 125, 130]"

section \<open>DataQualityAnalyzer\<close>

text \<open>
  The built-in and library functions whose results the analyzer uses: the library's
  \<open>quantile\<close>, \<open>JSON.stringify\<close> on a row, and whether \<open>new Date(value)\<close> is a
  valid date.
\<close>

record Platform =
  p_quantile :: quantileFn
  p_stringify :: "row \<Rightarrow> string"
  p_validDate :: "jsval \<Rightarrow> bool"

definition getEmptyMetrics :: DataQualityMetrics where
  "getEmptyMetrics =
     \<lparr>completeness = Fin 0, accuracy = Fin 0, consistency = Fin 0, outliers = 0,
      missingValues = 0, duplicates = 0\<rparr>"

text \<open>A cell is missing when it is \<open>null\<close>, \<open>undefined\<close> or the empty string.\<close>

definition isMissing :: "jsval \<Rightarrow> bool" where
  "isMissing v = (v = JNull \<or> v = JUndefined \<or> v = JStr [])"

text \<open>
  The two nested \<open>forEach\<close> loops over the rows and the fields, which count the cells
  that satisfy a test (the test sees the value and the field name).
\<close>

definition countCells :: "(jsval \<Rightarrow> string \<Rightarrow> bool) \<Rightarrow> row list \<Rightarrow> string list \<Rightarrow> nat" where
  "countCells test rows flds =
     foldl (\<lambda>n r. foldl (\<lambda>k field. if test (getField r field) field then Suc k else k) n flds)
       0 rows"

definition isFilled :: "jsval \<Rightarrow> bool" where
  "isFilled v = (v \<noteq> JNull \<and> v \<noteq> JUndefined \<and> v \<noteq> JStr [])"

definition calculateCompleteness :: "row list \<Rightarrow> string list \<Rightarrow> jsnum" where
  "calculateCompleteness rows flds =
     (let totalCells = length rows * length flds;
          filledCells = countCells (\<lambda>v field. isFilled v) rows flds
      in percentage filledCells totalCells)"

definition toLowerChar :: "char \<Rightarrow> char" where
  "toLowerChar c =
     (let n = (of_char c :: nat)
      in if (65 \<le> n \<and> n \<le> 90) \<or> (192 \<le> n \<and> n \<le> 222 \<and> n \<noteq> 215)
         then char_of (n + 32) else c)"

definition toLowerCase :: "string \<Rightarrow> string" where
  "toLowerCase s = map toLowerChar s"

fun startsWith :: "string \<Rightarrow> string \<Rightarrow> bool" where
  "startsWith s [] = True"
| "startsWith [] (p # ps) = False"
| "startsWith (c # cs) (p # ps) = (c = p \<and> startsWith cs ps)"

text \<open>\<open>String.prototype.includes\<close>: the second string occurs in the first.\<close>

fun includesStr :: "string \<Rightarrow> string \<Rightarrow> bool" where
  "includesStr [] sub = (sub = [])"
| "includesStr (c # cs) sub = (startsWith (c # cs) sub \<or> includesStr cs sub)"

text \<open>
  The regular expression of an email: one \<open>@\<close>, no white space, a non-empty local part,
  and after the \<open>@\<close> a dot that is neither the first nor the last character.
\<close>

definition emailPattern :: "string \<Rightarrow> bool" where
  "emailPattern s =
     (let a = takeWhile (\<lambda>c. c \<noteq> CHR ''@'') s;
          r = dropWhile (\<lambda>c. c \<noteq> CHR ''@'') s
      in a \<noteq> [] \<and> r \<noteq> [] \<and> CHR ''@'' \<notin> set (tl r) \<and> \<not> list_ex isWhiteSpace s \<and>
         CHR ''.'' \<in> set (butlast (tl (tl r))))"

definition isDigit :: "char \<Rightarrow> bool" where
  "isDigit c = (48 \<le> (of_char c :: nat) \<and> (of_char c :: nat) \<le> 57)"

text \<open>The regular expression of a date string: it starts with \<open>dddd-dd-dd\<close>.\<close>

definition datePrefix :: "string \<Rightarrow> bool" where
  "datePrefix s =
     (case s of
        c0 # c1 # c2 # c3 # c4 # c5 # c6 # c7 # c8 # c9 # _ \<Rightarrow>
          isDigit c0 \<and> isDigit c1 \<and> isDigit c2 \<and> isDigit c3 \<and> c4 = CHR ''-'' \<and>
          isDigit c5 \<and> isDigit c6 \<and> c7 = CHR ''-'' \<and> isDigit c8 \<and> isDigit c9
      | _ \<Rightarrow> False)"

definition isValidValue :: "Platform \<Rightarrow> jsval \<Rightarrow> string \<Rightarrow> bool" where
  "isValidValue pf v field =
     (if isMissing v then False
      else
        let lowerField = toLowerCase field in
        if includesStr lowerField ''email'' \<or> includesStr lowerField ''mail''
        then (case v of JStr s \<Rightarrow> emailPattern s | _ \<Rightarrow> False)
        else if includesStr lowerField ''date'' \<or> includesStr lowerField ''fecha''
                \<or> includesStr lowerField ''timestamp''
        then p_validDate pf v
        else if includesStr lowerField ''amount'' \<or> includesStr lowerField ''price''
                \<or> includesStr lowerField ''quantity'' \<or> includesStr lowerField ''count''
        then (case v of JNum n \<Rightarrow> \<not> isNaN n \<and> isFinite n | _ \<Rightarrow> False)
        else True)"

definition calculateAccuracy :: "Platform \<Rightarrow> row list \<Rightarrow> string list \<Rightarrow> jsnum" where
  "calculateAccuracy pf rows flds =
     (let totalCells = length rows * length flds;
          validCells = countCells (isValidValue pf) rows flds
      in percentage validCells totalCells)"

datatype ValueType =
  TNull | TNumber | TBoolean | TDate | TDateString | TEmail | TString | TObject | TUnknown

definition getValueType :: "jsval \<Rightarrow> ValueType" where
  "getValueType v =
     (case v of
        JNull \<Rightarrow> TNull
      | JUndefined \<Rightarrow> TNull
      | JNum _ \<Rightarrow> TNumber
      | JBool _ \<Rightarrow> TBoolean
      | JDate _ \<Rightarrow> TDate
      | JStr s \<Rightarrow> (if datePrefix s then TDateString else if emailPattern s then TEmail else TString)
      | JArr _ \<Rightarrow> TObject
      | JObj _ \<Rightarrow> TObject)"

definition allValueTypes :: "ValueType list" where
  "allValueTypes = [TNull, TNumber, TBoolean, TDate, TDateString, TEmail, TString, TObject, TUnknown]"

text \<open>
  The map from a field to the number of values of each type; a type that the inner map
  does not hold counts 0. \<open>Math.max\<close> of the values of an empty map is \<open>-Infinity\<close>.
\<close>

type_synonym typeCounts = "string \<Rightarrow> ValueType \<Rightarrow> nat"

definition countType :: "typeCounts \<Rightarrow> string \<Rightarrow> ValueType \<Rightarrow> typeCounts" where
  "countType m field t = m(field := (m field)(t := Suc (m field t)))"

definition maxCount :: "(ValueType \<Rightarrow> nat) \<Rightarrow> jsnum" where
  "maxCount m =
     (let cs = filter (\<lambda>c. 0 < c) (map m allValueTypes)
      in if cs = [] then NInf else Fin (real (foldr max cs 0)))"

definition calculateConsistency :: "row list \<Rightarrow> string list \<Rightarrow> jsnum" where
  "calculateConsistency rows flds =
     (let typesByField =
            foldl (\<lambda>m r. foldl (\<lambda>m' field. countType m' field (getValueType (getField r field)))
                            m flds)
              (\<lambda>field t. 0) rows;
          totalConsistency =
            foldl (\<lambda>acc field.
                     jadd acc
                       (jmul (jdiv (maxCount (typesByField field)) (Fin (real (length rows))))
                          (Fin 100)))
              (Fin 0) flds
      in jdiv totalConsistency (Fin (real (length flds))))"

text \<open>The values of a field that are numbers other than \<open>NaN\<close>.\<close>

definition numericColumn :: "row list \<Rightarrow> string \<Rightarrow> jsnum list" where
  "numericColumn rows field =
     concat (map (\<lambda>r. case getField r field of
                          JNum n \<Rightarrow> (if isNaN n then [] else [n])
                        | _ \<Rightarrow> []) rows)"

definition fieldOutliers :: "Platform \<Rightarrow> row list \<Rightarrow> string \<Rightarrow> error + nat" where
  "fieldOutliers pf rows field =
     (let numericValues = numericColumn rows field in
      if length numericValues > 10 then
        (case p_quantile pf numericValues 0.25 of
           Inl e \<Rightarrow> Inl e
         | Inr q1 \<Rightarrow>
           (case p_quantile pf numericValues 0.75 of
              Inl e \<Rightarrow> Inl e
            | Inr q3 \<Rightarrow>
                let iqr = jsub q3 q1;
                    lowerBound = jsub q1 (jmul (Fin 1.5) iqr);
                    upperBound = jadd q3 (jmul (Fin 1.5) iqr)
                in Inr (length (filter (\<lambda>v. jlt v lowerBound \<or> jgt v upperBound) numericValues))))
      else Inr 0)"

fun countOutliersFrom :: "Platform \<Rightarrow> row list \<Rightarrow> nat \<Rightarrow> string list \<Rightarrow> error + nat" where
  "countOutliersFrom pf rows totalOutliers [] = Inr totalOutliers"
| "countOutliersFrom pf rows totalOutliers (field # flds) =
     (case fieldOutliers pf rows field of
        Inl e \<Rightarrow> Inl e
      | Inr n \<Rightarrow> countOutliersFrom pf rows (totalOutliers + n) flds)"

definition countOutliers :: "Platform \<Rightarrow> row list \<Rightarrow> string list \<Rightarrow> error + nat" where
  "countOutliers pf rows flds = countOutliersFrom pf rows 0 flds"

definition countMissingValues :: "row list \<Rightarrow> string list \<Rightarrow> nat" where
  "countMissingValues rows flds = countCells (\<lambda>v field. isMissing v) rows flds"

definition countDuplicates :: "Platform \<Rightarrow> row list \<Rightarrow> nat" where
  "countDuplicates pf rows =
     snd (foldl (\<lambda>(seen, dups) r.
                   let hash = p_stringify pf r
                   in if hash \<in> set seen then (seen, Suc dups) else (hash # seen, dups))
            ([], 0) rows)"

text \<open>
  \<open>analyze\<close>; the fields default to the keys of the first row, in their order. Of
  the six computations only the count of outliers can throw, through the quantile, and
  none has an effect, so the model asks for that count first.
\<close>

definition analyze :: "Platform \<Rightarrow> row list \<Rightarrow> string list option \<Rightarrow> error + DataQualityMetrics" where
  "analyze pf rows requiredFields =
     (case rows of
        [] \<Rightarrow> Inr getEmptyMetrics
      | first # _ \<Rightarrow>
          let flds = (case requiredFields of Some fs \<Rightarrow> fs | None \<Rightarrow> map fst first)
          in case countOutliers pf rows flds of
               Inl e \<Rightarrow> Inl e
             | Inr out \<Rightarrow>
                 Inr \<lparr>completeness = calculateCompleteness rows flds,
                      accuracy = calculateAccuracy pf rows flds,
                      consistency = calculateConsistency rows flds,
                      outliers = out,
                      missingValues = countMissingValues rows flds,
                      duplicates = countDuplicates pf rows\<rparr>)"

text \<open>
  The reading of the specification: the number of filled cells, a cell being a row and a
  field, filled when its value is not \<open>null\<close>, not \<open>undefined\<close> and not the empty
  string.
\<close>

definition filledCellCount :: "row list \<Rightarrow> string list \<Rightarrow> nat" where
  "filledCellCount rows flds =
     length (filter (\<lambda>v. v \<noteq> JNull \<and> v \<noteq> JUndefined \<and> v \<noteq> JStr [])
               (concat (map (\<lambda>r. map (getField r) flds) rows)))"

text \<open>
  A platform for the closed theorems. Its serialisation is a stand-in for
  \<open>JSON.stringify\<close>: it writes the keys, \<open>null\<close> and the strings, and one sign
  for any other value, which tells the rows of the examples apart as the built-in does.
\<close>

definition examplePlatform :: Platform where
  "examplePlatform =
     \<lparr>p_quantile = nearestRank,
      p_stringify =
        (\<lambda>r. concat (map (\<lambda>kv. fst kv @ '':''
                                  @ (case snd kv of JNull \<Rightarrow> ''null'' | JStr t \<Rightarrow> t | _ \<Rightarrow> ''#'')
                                  @ '','') r)),
      p_validDate = (\<lambda>v. case v of JDate (Fin _) \<Rightarrow> True | _ \<Rightarrow> False)\<rparr>"

definition halfFilled :: "row list" where
  "halfFilled =
     [[(''name'', JNull), (''total'', JNull)],
      [(''name'', JStr ''Ana''), (''total'', JNum (Fin 12))]]"

section \<open>ForecastingService\<close>

record ForecastResult =
  forecasts :: "jsnum list"
  fconfidence :: jsnum
  fmethod :: string
  ftrend :: TrendDirection
  mape :: jsnum

text \<open>
  Modelled from the spec: the library function \<open>linearRegression\<close>, missing from the
  sources. Section 4.1 of the specification describes the simple linear regression
  whose slope and intercept minimise the squared error; for a single point the slope is
  0 and the intercept the point's ordinate, and for no point at all the quotients are
  \<open>0 / 0\<close>.
\<close>

definition linearRegression :: "(real \<times> real) list \<Rightarrow> jsnum \<times> jsnum" where
  "linearRegression points =
     (case points of
        [p] \<Rightarrow> (Fin 0, Fin (snd p))
      | _ \<Rightarrow>
        let n = real (length points);
            sumX = sum_list (map fst points);
            sumY = sum_list (map snd points);
            sumXX = sum_list (map (\<lambda>p. fst p * fst p) points);
            sumXY = sum_list (map (\<lambda>p. fst p * snd p) points);
            m = jdiv (Fin (n * sumXY - sumX * sumY)) (Fin (n * sumXX - sumX * sumX));
            b = jsub (jdiv (Fin sumY) (Fin n)) (jdiv (jmul m (Fin sumX)) (Fin n))
        in (m, b))"

text \<open>
  Modelled from the spec: the library function \<open>linearRegressionLine\<close>, missing from
  the sources: the line with the slope and the intercept of the regression.
\<close>

definition linearRegressionLine :: "jsnum \<times> jsnum \<Rightarrow> real \<Rightarrow> jsnum" where
  "linearRegressionLine mb x = jadd (snd mb) (jmul (fst mb) (Fin x))"

text \<open>The sum that \<open>reduce\<close> builds from 0, over JavaScript numbers.\<close>

definition jsum :: "jsnum list \<Rightarrow> jsnum" where
  "jsum xs = foldl jadd (Fin 0) xs"

definition calculateRSquared :: "real list \<Rightarrow> jsnum list \<Rightarrow> error + jsnum" where
  "calculateRSquared actual predicted =
     (case mean actual of
        Inl e \<Rightarrow> Inl e
      | Inr actualMean \<Rightarrow>
          let ssTotal = jsum (map (\<lambda>v. Fin ((v - actualMean) * (v - actualMean))) actual);
              ssResidual =
                jsum (map (\<lambda>(v, p). jmul (jsub (Fin v) p) (jsub (Fin v) p)) (zip actual predicted))
          in Inr (jsub (Fin 1) (jdiv ssResidual ssTotal)))"

text \<open>The loop of \<open>calculateMAPE\<close>: the sum of the relative errors and their number.\<close>

fun mapeLoop :: "jsnum \<Rightarrow> nat \<Rightarrow> (real \<times> jsnum) list \<Rightarrow> jsnum \<times> nat" where
  "mapeLoop s c [] = (s, c)"
| "mapeLoop s c ((a, p) # rest) =
     (if a \<noteq> 0 then mapeLoop (jadd s (jabs (jdiv (jsub (Fin a) p) (Fin a)))) (Suc c) rest
      else mapeLoop s c rest)"

definition calculateMAPE :: "real list \<Rightarrow> jsnum list \<Rightarrow> jsnum" where
  "calculateMAPE actual predicted =
     (case mapeLoop (Fin 0) 0 (zip actual predicted) of
        (sumPercentageError, c) \<Rightarrow>
          if c > 0 then jmul (jdiv sumPercentageError (Fin (real c))) (Fin 100) else Fin 0)"

text \<open>
  \<open>simpleLinearForecast\<close>. The number of periods is the number of rounds of the loop
  that pushes the forecasts. The coefficient of determination is computed and not used;
  its computation stays in the model because it throws on an empty series.
\<close>

definition simpleLinearForecast :: "real list \<Rightarrow> nat \<Rightarrow> real \<Rightarrow> error + ForecastResult" where
  "simpleLinearForecast xs periods conf =
     (let points = map (\<lambda>(i, v). (real i, v)) (indexed 0 xs);
          regression = linearRegression points;
          line = linearRegressionLine regression;
          predictions = map (\<lambda>(i, v). line (real i)) (indexed 0 xs)
      in case calculateRSquared xs predictions of
           Inl e \<Rightarrow> Inl e
         | Inr rSquared \<Rightarrow>
             let lastIndex = real (length xs) - 1;
                 fs = map (\<lambda>i. jmax (Fin 0) (line (lastIndex + real i))) [1..<Suc periods];
                 slope = fst regression
             in case mean xs of
                  Inl e \<Rightarrow> Inl e
                | Inr avg \<Rightarrow>
                    let tr = (if jlt (jabs slope) (Fin (0.01 * avg)) then stable
                              else if jgt slope (Fin 0) then upward else downward);
                        mp = calculateMAPE xs predictions
                    in Inr \<lparr>forecasts = fs,
                            fconfidence = jmax (Fin 0) (jsub (Fin 1) (jdiv mp (Fin 100))),
                            fmethod = ''linear_regression'', ftrend = tr, mape = mp\<rparr>)"

definition generateWeights :: "nat \<Rightarrow> real list" where
  "generateWeights n = map (\<lambda>i. (1 - 0.3) ^ (n - i - 1)) [0..<n]"

text \<open>The loop of the moving-average forecast; the value carried on is not clamped.\<close>

fun averageForecasts :: "real \<Rightarrow> real \<Rightarrow> nat \<Rightarrow> jsnum list" where
  "averageForecasts lastValue avgChange 0 = []"
| "averageForecasts lastValue avgChange (Suc n) =
     jmax (Fin 0) (Fin (lastValue + avgChange))
       # averageForecasts (lastValue + avgChange) avgChange n"

fun changesOf :: "real list \<Rightarrow> real list" where
  "changesOf (a # b # rest) = (b - a) # changesOf (b # rest)"
| "changesOf _ = []"

text \<open>
  \<open>weightedMovingAverageForecast\<close>. The weighted average of the recent values is
  computed and not used.
\<close>

definition weightedMovingAverageForecast :: "real list \<Rightarrow> nat \<Rightarrow> real \<Rightarrow> error + ForecastResult" where
  "weightedMovingAverageForecast xs periods conf =
     (let windowSize = min 10 (length xs);
          weights = generateWeights windowSize;
          recentData = drop (length xs - windowSize) xs;
          weightedAvg = jdiv (Fin (sum_list (map (\<lambda>(v, w). v * w) (zip recentData weights))))
                          (Fin (sum_list weights));
          changes = changesOf xs
      in case mean changes of
           Inl e \<Rightarrow> Inl e
         | Inr avgChange \<Rightarrow>
           (case standardDeviation changes of
              Inl e \<Rightarrow> Inl e
            | Inr stdChange \<Rightarrow>
              (case mean xs of
                 Inl e \<Rightarrow> Inl e
               | Inr avg \<Rightarrow>
                   let fs = averageForecasts (last xs) avgChange periods;
                       tr = (if \<bar>avgChange\<bar> < stdChange * 0.5 then stable
                             else if avgChange > 0 then upward else downward);
                       cv = jdiv (Fin stdChange) (Fin \<bar>avg\<bar>);
                       estimatedConfidence = jmax (Fin 0.5) (jmin (Fin 0.95) (jsub (Fin 1) cv))
                   in Inr \<lparr>forecasts = fs, fconfidence = estimatedConfidence,
                           fmethod = ''weighted_moving_average'', ftrend = tr,
                           mape = jmul cv (Fin 100)\<rparr>)))"

definition forecast :: "real list \<Rightarrow> nat \<Rightarrow> real \<Rightarrow> error + ForecastResult" where
  "forecast xs periods conf =
     (if length xs < 10 then simpleLinearForecast xs periods conf
      else weightedMovingAverageForecast xs periods conf)"

section \<open>ForecastTrendsUseCase\<close>

record ForecastDTO =
  f_data :: "jsnum list"
  f_periods :: jsnum
  f_confidence :: "jsnum option"

type_synonym IForecastingService = "jsnum list \<Rightarrow> jsnum \<Rightarrow> jsnum \<Rightarrow> error + ForecastResult"

definition insufficientData :: error where
  "insufficientData =
     Error (''Se requieren al menos 3 puntos de datos para realizar pron'' @ [CHR 0xF3]
              @ ''sticos'')"

text \<open>
  \<open>ForecastTrendsUseCase.execute\<close>; the forecasting service is the one that the
  constructor received. A confidence that is absent, 0 or \<open>NaN\<close> is replaced by 0.95.
\<close>

definition ForecastTrends_execute :: "IForecastingService \<Rightarrow> ForecastDTO \<Rightarrow> error + ForecastResult" where
  "ForecastTrends_execute forecastingService dto =
     (if length (f_data dto) < 3 then Inl insufficientData
      else if jlt (f_periods dto) (Fin 0) \<or> f_periods dto = Fin 0 \<or> jgt (f_periods dto) (Fin 24)
        then Inl (Error (''El n'' @ [CHR 0xFA] @ ''mero de per'' @ [CHR 0xED]
                           @ ''odos debe estar entre 1 y 24''))
      else if list_ex isNaN (f_data dto)
        then Inl (Error (''Todos los valores deben ser n'' @ [CHR 0xFA] @ ''meros v''
                           @ [CHR 0xE1] @ ''lidos''))
      else forecastingService (f_data dto) (f_periods dto)
             (case f_confidence dto of
                None \<Rightarrow> Fin 0.95
              | Some c \<Rightarrow> if c = Fin 0 \<or> c = NaN then Fin 0.95 else c))"

definition unusedService :: IForecastingService where
  "unusedService xs periods conf = Inl (Error ''not called'')"

section \<open>MLAnalysisWorker: numeric fields and correlations\<close>

text \<open>The values of a field that are of type \<open>number\<close> (\<open>NaN\<close> included).\<close>

definition numberColumn :: "row list \<Rightarrow> string \<Rightarrow> jsnum list" where
  "numberColumn rows field =
     concat (map (\<lambda>r. case getField r field of JNum n \<Rightarrow> [n] | _ \<Rightarrow> []) rows)"

text \<open>
  \<open>extractNumericFields\<close>: the keys of the first row, in their order, for which more
  than half of the rows hold a number other than \<open>NaN\<close>.
\<close>

definition extractNumericFields :: "row list \<Rightarrow> string list" where
  "extractNumericFields rows =
     (case rows of
        [] \<Rightarrow> []
      | firstRow # _ \<Rightarrow>
          filter (\<lambda>key. real (length (numericColumn rows key)) > real (length rows) * 0.5)
            (map fst firstRow))"

definition calculateCorrelation :: "jsnum list \<Rightarrow> jsnum list \<Rightarrow> jsnum" where
  "calculateCorrelation xs ys =
     (let n = min (length xs) (length ys);
          meanX = jdiv (jsum xs) (Fin (real n));
          meanY = jdiv (jsum ys) (Fin (real n))
      in case foldl (\<lambda>(numerator, denomX, denomY) (x, y).
                       let dx = jsub x meanX; dy = jsub y meanY
                       in (jadd numerator (jmul dx dy), jadd denomX (jmul dx dx),
                           jadd denomY (jmul dy dy)))
                (Fin 0, Fin 0, Fin 0) (take n (zip xs ys)) of
           (numerator, denomX, denomY) \<Rightarrow> jdiv numerator (jsqrt (jmul denomX denomY)))"

definition strengthOf :: "jsnum \<Rightarrow> string" where
  "strengthOf coef =
     (if jgt (jabs coef) (Fin 0.8) then ''fuerte''
      else if jgt (jabs coef) (Fin 0.6) then ''moderada''
      else ''d'' @ [CHR 0xE9] @ ''bil'')"

text \<open>The body of the inner loop of \<open>findCorrelations\<close>: what it pushes for a pair.\<close>

definition correlatePair :: "row list \<Rightarrow> string \<Rightarrow> string \<Rightarrow> FieldCorrelation list" where
  "correlatePair rows f1 f2 =
     (let values1 = numberColumn rows f1;
          values2 = numberColumn rows f2
      in if length values1 > 3 \<and> length values2 > 3 then
           let coef = calculateCorrelation values1 values2
           in if jgt (jabs coef) (Fin 0.5)
              then [\<lparr>field1 = f1, field2 = f2, coefficient = coef, strength = strengthOf coef\<rparr>]
              else []
         else [])"

fun innerLoop :: "row list \<Rightarrow> string \<Rightarrow> string list \<Rightarrow> FieldCorrelation list \<Rightarrow> FieldCorrelation list" where
  "innerLoop rows f1 [] correlations = correlations"
| "innerLoop rows f1 (f2 # rest) correlations =
     innerLoop rows f1 rest (correlations @ correlatePair rows f1 f2)"

fun outerLoop :: "row list \<Rightarrow> string list \<Rightarrow> FieldCorrelation list \<Rightarrow> FieldCorrelation list" where
  "outerLoop rows [] correlations = correlations"
| "outerLoop rows (f1 # rest) correlations =
     outerLoop rows rest (innerLoop rows f1 rest correlations)"

definition findCorrelations :: "row list \<Rightarrow> FieldCorrelation list" where
  "findCorrelations rows = take 3 (outerLoop rows (extractNumericFields rows) [])"

text \<open>
  The reading of the specification: the pairs of distinct positions of a list of fields,
  the earlier field first, and the pairs that are retained.
\<close>

fun fieldPairs :: "string list \<Rightarrow> (string \<times> string) list" where
  "fieldPairs [] = []"
| "fieldPairs (f # fs) = map (Pair f) fs @ fieldPairs fs"

definition retained :: "row list \<Rightarrow> string \<times> string \<Rightarrow> bool" where
  "retained rows p =
     (length (numberColumn rows (fst p)) \<ge> 4 \<and> length (numberColumn rows (snd p)) \<ge> 4 \<and>
      jgt (jabs (calculateCorrelation (numberColumn rows (fst p)) (numberColumn rows (snd p))))
        (Fin 0.5))"

definition correlationOf :: "row list \<Rightarrow> string \<times> string \<Rightarrow> FieldCorrelation" where
  "correlationOf rows p =
     (let r = calculateCorrelation (numberColumn rows (fst p)) (numberColumn rows (snd p))
      in \<lparr>field1 = fst p, field2 = snd p, coefficient = r,
          strength = (if jgt (jabs r) (Fin 0.8) then ''fuerte''
                      else if jgt (jabs r) (Fin 0.6) then ''moderada''
                      else ''d'' @ [CHR 0xE9] @ ''bil'')\<rparr>)"

definition correlationRows :: "row list" where
  "correlationRows =
     [[(''a'', JNum (Fin 0)), (''b'', JNum (Fin 0)), (''c'', JNum (Fin 0))],
      [(''a'', JNum (Fin 0)), (''b'', JNum (Fin 2)), (''c'', JNum (Fin 1))],
      [(''a'', JNum (Fin 1)), (''b'', JNum (Fin 3)), (''c'', JNum (Fin 0))],
      [(''a'', JNum (Fin 3)), (''b'', JNum (Fin 3)), (''c'', JNum (Fin 3))]]"

section \<open>MLAnalysisWorker: the analysis job\<close>

record MLJobData =
  j_reportId :: string
  j_data :: "row list"
  j_enableAnomalyDetection :: "bool option"
  j_enableForecasting :: "bool option"
  j_enableKPISuggestions :: "bool option"

text \<open>
  What the worker calls and does not define: the analysis services it holds, the
  progress report of the job, and \<open>Number.prototype.toFixed\<close>. A service returns its
  result or the error it throws; \<open>updateProgress\<close> returns the error it throws, if any.
\<close>

record Collaborators =
  c_analyze :: "row list \<Rightarrow> error + DataQualityMetrics"
  c_detectAnomalies :: "jsnum list \<Rightarrow> real \<Rightarrow> string \<Rightarrow> error + AnomalyResult"
  c_forecast :: "jsnum list \<Rightarrow> nat \<Rightarrow> real \<Rightarrow> error + ForecastResult"
  c_suggestKPIs :: "string \<Rightarrow> string option \<Rightarrow> nat \<Rightarrow> error + KPISuggestion list"
  c_updateProgress :: "string \<Rightarrow> nat \<Rightarrow> error option"
  c_toFixed :: "jsnum \<Rightarrow> nat \<Rightarrow> string"

text \<open>
  The state of the \<open>try\<close> block: the report object, the local list of insights, and
  the repository. A stage returns the error it throws, if any, and the state it leaves.
  The clock is read as one value \<open>now\<close> for the whole job.
\<close>

record TryState =
  ts_report :: Report
  ts_insights :: "AIInsight list"
  ts_db :: Repository

type_synonym stage = "TryState \<Rightarrow> error option \<times> TryState"

definition andThen :: "stage \<Rightarrow> stage \<Rightarrow> stage" where
  "andThen f g s = (case f s of (Some e, s') \<Rightarrow> (Some e, s') | (None, s') \<Rightarrow> g s')"

definition progress :: "Collaborators \<Rightarrow> string \<Rightarrow> nat \<Rightarrow> stage" where
  "progress cs st n s = (c_updateProgress cs st n, s)"

definition pushInsights :: "AIInsight list \<Rightarrow> TryState \<Rightarrow> TryState" where
  "pushInsights is s = s\<lparr>ts_insights := ts_insights s @ is\<rparr>"

definition stageStart :: stage where
  "stageStart s =
     (let r = markAsAnalyzing (ts_report s)
      in case update r (ts_db s) of
           Inl e \<Rightarrow> (Some e, s\<lparr>ts_report := r\<rparr>)
         | Inr db \<Rightarrow> (None, s\<lparr>ts_report := r, ts_db := db\<rparr>))"

definition qualityInsight :: "Collaborators \<Rightarrow> int \<Rightarrow> DataQualityMetrics \<Rightarrow> AIInsight" where
  "qualityInsight cs now q =
     \<lparr>itype = Suggestion, title = ''Calidad de Datos Baja'',
      description =
        ''Solo '' @ c_toFixed cs (completeness q) 1 @ ''% de los datos est'' @ [CHR 0xE1]
          @ ''n completos. Considera limpiar los datos antes de generar an'' @ [CHR 0xE1]
          @ ''lisis.'',
      confidence = Fin 0.95, idata = None, actionable = True, timestamp = now\<rparr>"

definition stageQuality :: "Collaborators \<Rightarrow> int \<Rightarrow> row list \<Rightarrow> stage" where
  "stageQuality cs now rows =
     andThen (progress cs ''quality_analysis'' 10)
       (\<lambda>s. case c_analyze cs rows of
               Inl e \<Rightarrow> (Some e, s)
             | Inr q \<Rightarrow>
                 (None,
                  pushInsights (if jlt (completeness q) (Fin 90) then [qualityInsight cs now q] else [])
                    (s\<lparr>ts_report := setDataQuality q (ts_report s)\<rparr>)))"

definition anomalyInsight :: "Collaborators \<Rightarrow> int \<Rightarrow> string \<Rightarrow> AnomalyResult \<Rightarrow> AIInsight" where
  "anomalyInsight cs now field result =
     \<lparr>itype = Anomaly, title = ''Anomal'' @ [CHR 0xED] @ ''as Detectadas en '' @ field,
      description =
        ''Se detectaron '' @ showNat (anomalyCount result) @ '' valores at'' @ [CHR 0xED]
          @ ''picos ('' @ c_toFixed cs (anomalyPercentage result) 1
          @ ''% del total) en el campo '' @ field,
      confidence = Fin 0.85,
      idata = Some (AnomalyData field (take 5 (filter isAnomaly (anomalies result)))),
      actionable = True, timestamp = now\<rparr>"

fun anomalyLoop :: "Collaborators \<Rightarrow> int \<Rightarrow> row list \<Rightarrow> string list \<Rightarrow> stage" where
  "anomalyLoop cs now rows [] s = (None, s)"
| "anomalyLoop cs now rows (field # rest) s =
     (let vs = numberColumn rows field in
      if length vs > 10 then
        (case c_detectAnomalies cs vs 2.5 ''zscore'' of
           Inl e \<Rightarrow> (Some e, s)
         | Inr result \<Rightarrow>
             anomalyLoop cs now rows rest
               (if anomalyCount result > 0
                then pushInsights [anomalyInsight cs now field result] s else s))
      else anomalyLoop cs now rows rest s)"

definition stageAnomalies :: "Collaborators \<Rightarrow> int \<Rightarrow> bool option \<Rightarrow> row list \<Rightarrow> stage" where
  "stageAnomalies cs now flag rows =
     (if flag = Some True
      then andThen (progress cs ''anomaly_detection'' 30)
             (anomalyLoop cs now rows (extractNumericFields rows))
      else (\<lambda>s. (None, s)))"

definition forecastInsight :: "int \<Rightarrow> string \<Rightarrow> ForecastResult \<Rightarrow> AIInsight" where
  "forecastInsight now field fc =
     \<lparr>itype = Forecast, title = ''Pron'' @ [CHR 0xF3] @ ''stico para '' @ field,
      description =
        ''Basado en tendencia ''
          @ (if ftrend fc = upward then ''creciente''
             else if ftrend fc = downward then ''decreciente'' else ''estable'')
          @ '', se proyectan los siguientes valores'',
      confidence = fconfidence fc,
      idata = Some (ForecastData field (forecasts fc) (ftrend fc) (fmethod fc)),
      actionable = True, timestamp = now\<rparr>"

fun forecastLoop :: "Collaborators \<Rightarrow> int \<Rightarrow> row list \<Rightarrow> string list \<Rightarrow> stage" where
  "forecastLoop cs now rows [] s = (None, s)"
| "forecastLoop cs now rows (field # rest) s =
     (let vs = numberColumn rows field in
      if length vs \<ge> 5 then
        (case c_forecast cs vs 3 0.95 of
           Inl e \<Rightarrow> (Some e, s)
         | Inr fc \<Rightarrow>
             forecastLoop cs now rows rest (pushInsights [forecastInsight now field fc] s))
      else forecastLoop cs now rows rest s)"

definition stageForecast :: "Collaborators \<Rightarrow> int \<Rightarrow> bool option \<Rightarrow> row list \<Rightarrow> stage" where
  "stageForecast cs now flag rows =
     (if flag = Some True
      then andThen (progress cs ''forecasting'' 50)
             (forecastLoop cs now rows (extractNumericFields rows))
      else (\<lambda>s. (None, s)))"

definition kpiInsight :: "int \<Rightarrow> KPISuggestion list \<Rightarrow> AIInsight" where
  "kpiInsight now kpis =
     \<lparr>itype = Suggestion, title = ''KPIs Sugeridos'',
      description =
        ''Se sugieren '' @ showNat (length kpis)
          @ '' indicadores clave de performance relevantes para tus datos'',
      confidence = Fin 0.80, idata = Some (KPIData kpis), actionable = True,
      timestamp = now\<rparr>"

text \<open>The inner \<open>try\<close>: an error of the suggestion service is logged and dropped.\<close>

definition stageKPIs :: "Collaborators \<Rightarrow> int \<Rightarrow> bool option \<Rightarrow> stage" where
  "stageKPIs cs now flag =
     (if flag = Some True
      then andThen (progress cs ''kpi_suggestions'' 70)
             (\<lambda>s. case c_suggestKPIs cs
                          (case dataSource (metadata (ts_report s)) of
                             None \<Rightarrow> ''unknown''
                           | Some d \<Rightarrow> if d = [] then ''unknown'' else d)
                          (mdescription (metadata (ts_report s))) 3 of
                     Inl e \<Rightarrow> (None, s)
                   | Inr kpis \<Rightarrow>
                       if length kpis > 0
                       then (None, pushInsights [kpiInsight now kpis]
                                     (s\<lparr>ts_report := addKPISuggestions kpis (ts_report s)\<rparr>))
                       else (None, s))
      else (\<lambda>s. (None, s)))"

text \<open>
  The title of a correlation insight puts the character U+2194 between the two fields;
  it has no Latin-1 code and is written \<open><->\<close> here.
\<close>

definition correlationInsight :: "Collaborators \<Rightarrow> int \<Rightarrow> FieldCorrelation \<Rightarrow> AIInsight" where
  "correlationInsight cs now corr =
     \<lparr>itype = Correlation,
      title = ''Correlaci'' @ [CHR 0xF3] @ ''n: '' @ field1 corr @ '' <-> '' @ field2 corr,
      description =
        ''Existe una correlaci'' @ [CHR 0xF3] @ ''n '' @ strength corr @ '' (''
          @ c_toFixed cs (jmul (coefficient corr) (Fin 100)) 1 @ ''%) entre '' @ field1 corr
          @ '' y '' @ field2 corr,
      confidence = jabs (coefficient corr), idata = Some (CorrelationData corr),
      actionable = True, timestamp = now\<rparr>"

definition stageCorrelations :: "Collaborators \<Rightarrow> int \<Rightarrow> row list \<Rightarrow> stage" where
  "stageCorrelations cs now rows =
     andThen (progress cs ''correlation_analysis'' 85)
       (\<lambda>s. (None, pushInsights (map (correlationInsight cs now) (findCorrelations rows)) s))"

definition stageSave :: "Collaborators \<Rightarrow> stage" where
  "stageSave cs =
     andThen (\<lambda>s. (None, s\<lparr>ts_report :=
                              foldl (\<lambda>r i. addAIInsight i r) (ts_report s) (ts_insights s)\<rparr>))
       (andThen (progress cs ''saving'' 95)
          (andThen (\<lambda>s. case update (ts_report s) (ts_db s) of
                           Inl e \<Rightarrow> (Some e, s)
                         | Inr db \<Rightarrow> (None, s\<lparr>ts_db := db\<rparr>))
             (progress cs ''completed'' 100)))"

text \<open>The steps of the \<open>try\<close> block up to and including the correlation step.\<close>

definition analysisSteps :: "Collaborators \<Rightarrow> int \<Rightarrow> MLJobData \<Rightarrow> stage" where
  "analysisSteps cs now job =
     andThen stageStart
       (andThen (stageQuality cs now (j_data job))
          (andThen (stageAnomalies cs now (j_enableAnomalyDetection job) (j_data job))
             (andThen (stageForecast cs now (j_enableForecasting job) (j_data job))
                (andThen (stageKPIs cs now (j_enableKPISuggestions job))
                   (stageCorrelations cs now (j_data job))))))"

definition tryBlock :: "Collaborators \<Rightarrow> int \<Rightarrow> MLJobData \<Rightarrow> stage" where
  "tryBlock cs now job = andThen (analysisSteps cs now job) (stageSave cs)"

text \<open>
  \<open>processAnalysis\<close>: the error with which the job fails, if any, and the repository
  as the job leaves it. The \<open>catch\<close> block logs the error and updates the report as
  the \<open>try\<close> block has left it.
\<close>

definition processAnalysis :: "Collaborators \<Rightarrow> int \<Rightarrow> MLJobData \<Rightarrow> Repository \<Rightarrow> error option \<times> Repository" where
  "processAnalysis cs now job db =
     (case findById (j_reportId job) db of
        Inl e \<Rightarrow> (Some e, db)
      | Inr None \<Rightarrow> (Some (Error (''Reporte '' @ j_reportId job @ '' no encontrado'')), db)
      | Inr (Some report) \<Rightarrow>
          (case tryBlock cs now job \<lparr>ts_report = report, ts_insights = [], ts_db = db\<rparr> of
             (None, s) \<Rightarrow> (None, ts_db s)
           | (Some e, s) \<Rightarrow>
               (case update (ts_report s) (ts_db s) of
                  Inl e' \<Rightarrow> (Some e', ts_db s)
                | Inr db' \<Rightarrow> (None, db'))))"

text \<open>
  What every stage before the last keeps, for a job on the report \<open>i\<close> whose stored
  insights are \<open>a\<close>: the report object keeps its id, its status \<open>ANALYZING\<close> and its
  insights, and the repository stays connected and holds the report.
\<close>

definition analyzing :: "string \<Rightarrow> AIInsight list option \<Rightarrow> TryState \<Rightarrow> bool" where
  "analyzing i a s =
     (rid (ts_report s) = i \<and> status (ts_report s) = ANALYZING \<and>
      aiInsights (metadata (ts_report s)) = a \<and>
      connected (ts_db s) \<and> docs (ts_db s) i \<noteq> None)"

text \<open>
  Collaborators and a job for the closed theorems: the quality analysis is the
  analyzer of the repository, the connection of the job is lost after the first progress
  report, and the other services are not reached.
\<close>

definition lostConnection :: Collaborators where
  "lostConnection =
     \<lparr>c_analyze = (\<lambda>rows. analyze examplePlatform rows None),
      c_detectAnomalies = (\<lambda>vs t m. Inl (Error ''not called'')),
      c_forecast = (\<lambda>vs n c. Inl (Error ''not called'')),
      c_suggestKPIs = (\<lambda>d b n. Inl (Error ''not called'')),
      c_updateProgress = (\<lambda>st n. if n = 10 then None else Some (Error ''Connection is closed.'')),
      c_toFixed = (\<lambda>x n. if x = Fin 50 \<and> n = 1 then ''50.0'' else ''0.0'')\<rparr>"

definition exampleJob :: MLJobData where
  "exampleJob =
     \<lparr>j_reportId = ''r1'', j_data = halfFilled, j_enableAnomalyDetection = Some True,
      j_enableForecasting = Some True, j_enableKPISuggestions = Some True\<rparr>"

text \<open>A stage keeps a property of the state, whether it throws or not.\<close>

definition keeps :: "(TryState \<Rightarrow> bool) \<Rightarrow> stage \<Rightarrow> bool" where
  "keeps P st = (\<forall>s x s'. P s \<longrightarrow> st s = (x, s') \<longrightarrow> P s')"

section \<open>Report lifecycle\<close>

lemma applyOp_mutator_fields:
  "\<not> isTransition x \<Longrightarrow>
     status (applyOp x r) = status r \<and> filePath (applyOp x r) = filePath r \<and>
     fileSize (applyOp x r) = fileSize r \<and> downloadUrl (applyOp x r) = downloadUrl r \<and>
     error (applyOp x r) = error r"
  by (cases x)
     (auto simp: isTransition_def addAIInsight_def addKPISuggestions_def setDataQuality_def)

text \<open>
  C1, as the specification states it, fails: a report that \<open>markAsFailed\<close> has made
  \<open>FAILED\<close> is turned into \<open>COMPLETED\<close> by \<open>markAsCompleted\<close>, without any error.
\<close>

theorem terminal_transition_counterexample:
  "terminal (status (markAsFailed 2000 ''render failed'' exampleReport)) \<and>
   status (markAsCompleted 3000 3001 ''/tmp/r1.pdf'' 2048 ''/download/r1''
            (markAsFailed 2000 ''render failed'' exampleReport)) = COMPLETED \<and>
   markAsCompleted 3000 3001 ''/tmp/r1.pdf'' 2048 ''/download/r1''
     (markAsFailed 2000 ''render failed'' exampleReport)
   \<noteq> markAsFailed 2000 ''render failed'' exampleReport"
proof -
  let ?f = "markAsFailed 2000 ''render failed'' exampleReport"
  let ?c = "markAsCompleted 3000 3001 ''/tmp/r1.pdf'' 2048 ''/download/r1'' ?f"
  have f: "status ?f = FAILED" by (simp add: markAsFailed_def)
  have c: "status ?c = COMPLETED" by (simp add: markAsCompleted_def)
  from f c have "?c \<noteq> ?f" by auto
  with f c show ?thesis by (simp add: terminal_def)
qed

text \<open>
  C1 (amended): the transitions are not guarded. On a report whose status is terminal,
  each of \<open>markAsProcessing\<close>, \<open>markAsAnalyzing\<close>, \<open>markAsCompleted\<close> and
  \<open>markAsFailed\<close> returns normally and writes its own target state into \<open>status\<close>;
  \<open>markAsCompleted\<close> after \<open>markAsFailed\<close> gives a \<open>COMPLETED\<close> report that
  still carries the error.
\<close>

theorem terminal_transition_unguarded:
  assumes "terminal (status r)" and "isTransition x"
  shows "target x = Some (status (applyOp x r)) \<and>
         status (markAsCompleted now now' fp fs url (markAsFailed t e r)) = COMPLETED \<and>
         error (markAsCompleted now now' fp fs url (markAsFailed t e r)) = Some e"
proof -
  from assms(2) have "target x = Some (status (applyOp x r))"
    by (cases x)
       (auto simp: isTransition_def markAsProcessing_def markAsAnalyzing_def
          markAsCompleted_def markAsFailed_def)
  then show ?thesis by (simp add: markAsCompleted_def markAsFailed_def)
qed

theorem terminal_transition_unguarded_witness:
  "terminal (status (markAsFailed 2000 ''render failed'' exampleReport)) \<and>
   isTransition MarkAsProcessing \<and>
   status (applyOp MarkAsProcessing (markAsFailed 2000 ''render failed'' exampleReport))
     = PROCESSING"
proof -
  have t: "terminal (status (markAsFailed 2000 ''render failed'' exampleReport))"
    by (simp add: terminal_def markAsFailed_def)
  have i: "isTransition MarkAsProcessing" by (simp add: isTransition_def)
  from terminal_transition_unguarded [OF t i] t i show ?thesis by simp
qed

lemma lifecycleInv_created: "created r \<Longrightarrow> lifecycleInv r"
  by (simp add: created_def lifecycleInv_def hasArtifact_def hasError_def terminal_def)

lemma lifecycleInv_artifactErrorInv: "lifecycleInv r \<Longrightarrow> artifactErrorInv r"
  by (auto simp: lifecycleInv_def artifactErrorInv_def terminal_def)

lemma lifecycleInv_transition:
  assumes "lifecycleInv r" and "isTransition x" and "\<not> terminal (status r)"
  shows "lifecycleInv (applyOp x r)"
  using assms
  by (cases x)
     (auto simp: lifecycleInv_def isTransition_def terminal_def hasArtifact_def hasError_def
        markAsProcessing_def markAsAnalyzing_def markAsCompleted_def markAsFailed_def)

lemma lifecycleInv_mutator:
  assumes "lifecycleInv r" and "\<not> isTransition x"
  shows "lifecycleInv (applyOp x r)"
  using assms applyOp_mutator_fields [OF assms(2), of r]
  by (simp add: lifecycleInv_def hasArtifact_def hasError_def)

lemma lifecycleInv_applyOps:
  "lifecycleInv r \<Longrightarrow> disciplined ops r \<Longrightarrow> lifecycleInv (applyOps ops r)"
proof (induction ops arbitrary: r)
  case Nil
  then show ?case by simp
next
  case (Cons x xs)
  have "lifecycleInv (applyOp x r)"
  proof (cases "isTransition x")
    case True
    with Cons.prems show ?thesis by (simp add: lifecycleInv_transition)
  next
    case False
    with Cons.prems show ?thesis by (simp add: lifecycleInv_mutator)
  qed
  with Cons show ?case by simp
qed

text \<open>
  C2, as the specification states it, fails: from a freshly created report,
  \<open>markAsFailed\<close> followed by \<open>markAsCompleted\<close> leaves artifact and error both
  present.
\<close>

theorem artifact_error_counterexample:
  "created exampleReport \<and>
   \<not> artifactErrorInv
       (applyOps [MarkAsFailed 2000 ''render failed'',
                  MarkAsCompleted 3000 3001 ''/tmp/r1.pdf'' 2048 ''/download/r1'']
          exampleReport)"
  by (simp add: created_def exampleReport_def artifactErrorInv_def hasArtifact_def
        hasError_def markAsFailed_def markAsCompleted_def)

text \<open>
  C2 (amended): for every report reached from creation by a sequence of the lifecycle
  operations in which no transition is applied to a report that is already terminal,
  artifact and error are never both present, and both are absent while the status is not
  terminal.
\<close>

theorem artifact_error_exclusive:
  assumes "created r" and "disciplined ops r"
  shows "artifactErrorInv (applyOps ops r)"
  using assms
  by (simp add: lifecycleInv_created lifecycleInv_applyOps lifecycleInv_artifactErrorInv)

theorem artifact_error_exclusive_witness:
  "created exampleReport \<and>
   disciplined [MarkAsProcessing, MarkAsAnalyzing,
                MarkAsCompleted 3000 3001 ''/tmp/r1.pdf'' 2048 ''/download/r1''] exampleReport \<and>
   artifactErrorInv
     (applyOps [MarkAsProcessing, MarkAsAnalyzing,
                MarkAsCompleted 3000 3001 ''/tmp/r1.pdf'' 2048 ''/download/r1''] exampleReport)"
proof -
  let ?ops = "[MarkAsProcessing, MarkAsAnalyzing,
               MarkAsCompleted 3000 3001 ''/tmp/r1.pdf'' 2048 ''/download/r1'']"
  have c: "created exampleReport"
    by (simp add: created_def exampleReport_def)
  have d: "disciplined ?ops exampleReport"
    by (simp add: isTransition_def terminal_def markAsProcessing_def markAsAnalyzing_def
          exampleReport_def)
  from artifact_error_exclusive [OF c d] c d show ?thesis by simp
qed

section \<open>Submission\<close>

text \<open>
  C3, as the specification states it, fails: with the render queue unreachable, the call
  ends in the queue's error, and the report it saved before is still in the repository,
  in \<open>PENDING\<close> state.
\<close>

theorem enqueue_failure_counterexample:
  "fst (GenerateReport_execute defaultConfig ''r1'' 1000 exampleDTO queueDown)
     = Inl (Error ''Connection is closed.'') \<and>
   map_option status
     (docs (repo (snd (GenerateReport_execute defaultConfig ''r1'' 1000 exampleDTO queueDown)))
        ''r1'')
     = Some PENDING"
  by (simp add: GenerateReport_execute_def checkMaxRows_def getMaxRows_def exampleDTO_def
        queueDown_def newReport_def validateReport_def trim_def isWhiteSpace_def save_def
        add_def Let_def)

text \<open>
  C3 (amended): for every submission request that passes the checks and is saved, if
  enqueueing the render job fails, the failure surfaces synchronously to the caller as
  the error thrown by the call; the report saved in \<open>PENDING\<close> state before the
  enqueue attempt stays in the repository, and nothing is queued.
\<close>

theorem enqueue_failure_surfaces:
  assumes "checkMaxRows cfg dto = None"
    and "validateReport (newReport uuid now dto) = Inr ()"
    and "connected (repo w)" and "docs (repo w) uuid = None"
    and "qfailure (reportQueue w) = Some e"
  shows "GenerateReport_execute cfg uuid now dto w =
           (Inl e, w\<lparr>repo := (repo w)\<lparr>docs := (docs (repo w))(uuid \<mapsto> newReport uuid now dto)\<rparr>\<rparr>) \<and>
         status (newReport uuid now dto) = PENDING"
proof -
  have r: "rid (newReport uuid now dto) = uuid" by (simp add: newReport_def)
  have s: "save (newReport uuid now dto) (repo w) =
             Inr ((repo w)\<lparr>docs := (docs (repo w))(uuid \<mapsto> newReport uuid now dto)\<rparr>)"
    using assms(3,4) by (simp add: save_def r)
  have "GenerateReport_execute cfg uuid now dto w =
          (Inl e, w\<lparr>repo := (repo w)\<lparr>docs := (docs (repo w))(uuid \<mapsto> newReport uuid now dto)\<rparr>\<rparr>)"
    using assms(1,2,5) by (simp add: GenerateReport_execute_def s add_def Let_def)
  then show ?thesis by (simp add: newReport_def)
qed

theorem enqueue_failure_surfaces_witness:
  "checkMaxRows defaultConfig exampleDTO = None \<and>
   validateReport (newReport ''r1'' 1000 exampleDTO) = Inr () \<and>
   connected (repo queueDown) \<and> docs (repo queueDown) ''r1'' = None \<and>
   qfailure (reportQueue queueDown) = Some (Error ''Connection is closed.'') \<and>
   GenerateReport_execute defaultConfig ''r1'' 1000 exampleDTO queueDown =
     (Inl (Error ''Connection is closed.''),
      queueDown\<lparr>repo := (repo queueDown)\<lparr>docs :=
         (docs (repo queueDown))(''r1'' \<mapsto> newReport ''r1'' 1000 exampleDTO)\<rparr>\<rparr>)"
proof -
  have a: "checkMaxRows defaultConfig exampleDTO = None"
    by (simp add: checkMaxRows_def getMaxRows_def exampleDTO_def)
  have b: "validateReport (newReport ''r1'' 1000 exampleDTO) = Inr ()"
    by (simp add: validateReport_def newReport_def exampleDTO_def trim_def isWhiteSpace_def)
  have c: "connected (repo queueDown)" by (simp add: queueDown_def)
  have d: "docs (repo queueDown) ''r1'' = None" by (simp add: queueDown_def)
  have e: "qfailure (reportQueue queueDown) = Some (Error ''Connection is closed.'')"
    by (simp add: queueDown_def)
  from enqueue_failure_surfaces [OF a b c d e] a b c d e show ?thesis by simp
qed

section \<open>Synchronous analysis\<close>

text \<open>
  C10: in \<open>AnalyzeDataUseCase.execute\<close>, for every report that exists and has AI
  analysis enabled, if the ML service throws, the report is stored as \<open>FAILED\<close> with
  its error field set to the message that wraps the analysis error, and the same error
  is thrown to the caller.
\<close>

theorem analyze_failure_is_fatal:
  assumes "connected db" and "docs db (a_reportId dto) = Some doc"
    and "aiAnalysisEnabled doc"
    and "ml (a_data dto) dto = Inl e"
  shows "\<exists>db' r. AnalyzeData_execute ml ts te tf dto db = (Inl e, db') \<and>
           docs db' (a_reportId dto) = Some r \<and> status r = FAILED \<and>
           error r = Some (''Error en an'' @ [CHR 0xE1] @ ''lisis de IA: '' @ message e)"
proof -
  let ?i = "a_reportId dto"
  let ?report = "doc\<lparr>rid := ?i\<rparr>"
  let ?a = "markAsAnalyzing ?report"
  let ?f = "markAsFailed tf (analysisErrorMessage e) ?a"
  let ?db1 = "db\<lparr>docs := (docs db)(?i \<mapsto> ?a)\<rparr>"
  let ?db3 = "?db1\<lparr>docs := (docs ?db1)(?i \<mapsto> ?f)\<rparr>"
  have find: "findById ?i db = Inr (Some ?report)"
    using assms(1,2) by (simp add: findById_def)
  have en: "aiAnalysisEnabled ?report" using assms(3) by simp
  have ida: "rid ?a = ?i" by (simp add: markAsAnalyzing_def)
  have idf: "rid ?f = ?i" by (simp add: markAsFailed_def markAsAnalyzing_def)
  have u1: "update ?a db = Inr ?db1"
    using assms(1,2) by (simp add: update_def ida)
  have tr: "analyzeTry ml ts te dto ?a ?db1 = Inl (e, ?a)"
    using assms(4) by (simp add: analyzeTry_def)
  have u3: "update ?f ?db1 = Inr ?db3"
    using assms(1) by (simp add: update_def idf)
  have ex: "AnalyzeData_execute ml ts te tf dto db = (Inl e, ?db3)"
    unfolding AnalyzeData_execute_def by (simp add: find en u1 tr u3)
  have "docs ?db3 ?i = Some ?f" by simp
  moreover have "status ?f = FAILED" by (simp add: markAsFailed_def)
  moreover have "error ?f = Some (''Error en an'' @ [CHR 0xE1] @ ''lisis de IA: '' @ message e)"
    by (simp add: markAsFailed_def analysisErrorMessage_def)
  ultimately show ?thesis using ex by blast
qed

theorem analyze_failure_is_fatal_witness:
  "connected exampleRepo \<and> docs exampleRepo (a_reportId exampleAnalyzeDTO) = Some exampleReport \<and>
   aiAnalysisEnabled exampleReport \<and>
   failingML (a_data exampleAnalyzeDTO) exampleAnalyzeDTO = Inl (Error ''model unavailable'') \<and>
   (\<exists>db' r. AnalyzeData_execute failingML 10 20 30 exampleAnalyzeDTO exampleRepo
               = (Inl (Error ''model unavailable''), db') \<and>
            docs db' ''r1'' = Some r \<and> status r = FAILED \<and>
            error r = Some (''Error en an'' @ [CHR 0xE1] @ ''lisis de IA: model unavailable''))"
proof -
  have a: "connected exampleRepo" by (simp add: exampleRepo_def)
  have b: "docs exampleRepo (a_reportId exampleAnalyzeDTO) = Some exampleReport"
    by (simp add: exampleRepo_def exampleAnalyzeDTO_def)
  have c: "aiAnalysisEnabled exampleReport" by (simp add: exampleReport_def)
  have d: "failingML (a_data exampleAnalyzeDTO) exampleAnalyzeDTO = Inl (Error ''model unavailable'')"
    by (simp add: failingML_def)
  have i: "a_reportId exampleAnalyzeDTO = ''r1''" by (simp add: exampleAnalyzeDTO_def)
  from analyze_failure_is_fatal [where ml = failingML and ts = 10 and te = 20 and tf = 30, OF a b c d]
    a b c d i show ?thesis by simp
qed

section \<open>Anomaly detection\<close>

lemma sum_list_const: "\<forall>x\<in>set xs. x = (v::real) \<Longrightarrow> sum_list xs = real (length xs) * v"
  by (induction xs) (auto simp: algebra_simps)

lemma mean_const:
  assumes "xs \<noteq> []" and "\<forall>x\<in>set xs. x = v"
  shows "mean xs = Inr v"
  using assms by (simp add: mean_def sum_list_const)

lemma sum_list_zero_dev: "\<forall>x\<in>set xs. x = (v::real) \<Longrightarrow> sum_list (map (\<lambda>x. (x - v)\<^sup>2) xs) = 0"
  by (induction xs) auto

lemma standardDeviation_const:
  assumes "xs \<noteq> []" and "\<forall>x\<in>set xs. x = v"
  shows "standardDeviation xs = Inr 0"
  using assms by (simp add: standardDeviation_def variance_def mean_const sum_list_zero_dev)

lemma zscore_gt_iff:
  assumes "0 < var" and "0 \<le> t"
  shows "jgt (jabs (jdiv (Fin a) (Fin (sqrt var)))) (Fin t) \<longleftrightarrow> t\<^sup>2 * var < a\<^sup>2"
proof -
  have s: "0 < sqrt var" using assms(1) by simp
  have "jgt (jabs (jdiv (Fin a) (Fin (sqrt var)))) (Fin t) \<longleftrightarrow> t < \<bar>a\<bar> / sqrt var"
    using s by (simp add: jgt_def)
  also have "\<dots> \<longleftrightarrow> t * sqrt var < \<bar>a\<bar>"
    using s by (simp add: pos_less_divide_eq)
  also have "\<dots> \<longleftrightarrow> (t * sqrt var)\<^sup>2 < \<bar>a\<bar>\<^sup>2"
  proof
    assume "t * sqrt var < \<bar>a\<bar>"
    then show "(t * sqrt var)\<^sup>2 < \<bar>a\<bar>\<^sup>2"
      using s assms(2) by (intro power_strict_mono) auto
  next
    assume "(t * sqrt var)\<^sup>2 < \<bar>a\<bar>\<^sup>2"
    then show "t * sqrt var < \<bar>a\<bar>"
      by (rule power2_less_imp_less) simp
  qed
  finally show ?thesis using assms(1) by (simp add: power_mult_distrib)
qed

lemma mean_scenarioB: "mean scenarioB = Inr (445/3)"
  by (simp add: mean_def scenarioB_def)

lemma variance_scenarioB: "variance scenarioB = Inr (42200/9)"
  by (simp add: variance_def mean_def scenarioB_def power2_eq_square)

lemma detectWithZScore_scenarioB:
  "detectWithZScore scenarioB t =
     Inr (anomalyResult (map (zScorePoint (445/3) (sqrt (42200/9)) t) (indexed 0 scenarioB)) t
            ''zscore'' 6)"
proof -
  have "standardDeviation scenarioB = Inr (sqrt (42200/9))"
    unfolding standardDeviation_def variance_scenarioB by simp
  moreover have "length scenarioB = 6" by (simp add: scenarioB_def)
  ultimately show ?thesis
    unfolding detectWithZScore_def mean_scenarioB by simp
qed

lemma isAnomaly_zScorePoint:
  assumes "0 < var" and "0 \<le> t"
  shows "isAnomaly (zScorePoint avg (sqrt var) t (i, x)) \<longleftrightarrow> t\<^sup>2 * var < (x - avg)\<^sup>2"
  using zscore_gt_iff [OF assms, of "x - avg"] by (simp add: zScorePoint_def)

lemma flags_scenarioB:
  assumes "0 \<le> t"
  shows "map isAnomaly (map (zScorePoint (445/3) (sqrt (42200/9)) t) (indexed 0 scenarioB)) =
           map (\<lambda>x. t\<^sup>2 * (42200/9) < (x - 445/3)\<^sup>2) scenarioB"
  using assms by (simp add: scenarioB_def isAnomaly_zScorePoint)

lemma length_filter_flags: "length (filter isAnomaly ps) = length (filter id (map isAnomaly ps))"
  by (induction ps) auto

text \<open>
  C7, as the specification states it, fails: with threshold 2.5 the z-score of the value
  300 (about 2.21; six points cannot score above the square root of five) stays below
  the threshold, so the point at index 3 is not flagged and \<open>anomalyCount\<close> is 0.
\<close>

theorem scenarioB_counterexample:
  "\<not> isl (detectWithZScore scenarioB 2.5) \<and>
   anomalyCount (projr (detectWithZScore scenarioB 2.5)) \<noteq> 1 \<and>
   \<not> isAnomaly (anomalies (projr (detectWithZScore scenarioB 2.5)) ! 3)"
proof -
  let ?ps = "map (zScorePoint (445/3) (sqrt (42200/9)) 2.5) (indexed 0 scenarioB)"
  have "map isAnomaly ?ps = map (\<lambda>x. (2.5)\<^sup>2 * (42200/9) < (x - 445/3)\<^sup>2) scenarioB"
    by (rule flags_scenarioB) simp
  also have "\<dots> = [False, False, False, False, False, False]"
    by (simp add: scenarioB_def power2_eq_square)
  finally have f: "map isAnomaly ?ps = [False, False, False, False, False, False]" .
  have c: "length (filter isAnomaly ?ps) = 0"
    unfolding length_filter_flags f by simp
  have "isAnomaly (?ps ! 3) = map isAnomaly ?ps ! 3"
    by (simp add: scenarioB_def)
  then have n: "\<not> isAnomaly (?ps ! 3)" unfolding f by simp
  show ?thesis
    unfolding detectWithZScore_scenarioB using c n by (simp add: anomalyResult_def)
qed

text \<open>
  C7 (amended): z-score detection on the series 100, 120, 115, 300, 125, 130 with
  threshold 2.5 flags no point and returns \<open>anomalyCount = 0\<close>; with threshold 2 it
  flags the point at index 3 (value 300) and only that point, \<open>anomalyCount = 1\<close>.
\<close>

theorem scenarioB_zscore:
  "\<not> isl (detectWithZScore scenarioB 2.5) \<and>
   anomalyCount (projr (detectWithZScore scenarioB 2.5)) = 0 \<and>
   map isAnomaly (anomalies (projr (detectWithZScore scenarioB 2.5)))
     = [False, False, False, False, False, False] \<and>
   \<not> isl (detectWithZScore scenarioB 2) \<and>
   anomalyCount (projr (detectWithZScore scenarioB 2)) = 1 \<and>
   map isAnomaly (anomalies (projr (detectWithZScore scenarioB 2)))
     = [False, False, False, True, False, False]"
proof -
  let ?ps = "\<lambda>t. map (zScorePoint (445/3) (sqrt (42200/9)) t) (indexed 0 scenarioB)"
  have "map isAnomaly (?ps 2.5) = map (\<lambda>x. (2.5)\<^sup>2 * (42200/9) < (x - 445/3)\<^sup>2) scenarioB"
    by (rule flags_scenarioB) simp
  also have "\<dots> = [False, False, False, False, False, False]"
    by (simp add: scenarioB_def power2_eq_square)
  finally have f: "map isAnomaly (?ps 2.5) = [False, False, False, False, False, False]" .
  have "map isAnomaly (?ps 2) = map (\<lambda>x. 2\<^sup>2 * (42200/9) < (x - 445/3)\<^sup>2) scenarioB"
    by (rule flags_scenarioB) simp
  also have "\<dots> = [False, False, False, True, False, False]"
    by (simp add: scenarioB_def power2_eq_square)
  finally have g: "map isAnomaly (?ps 2) = [False, False, False, True, False, False]" .
  have c: "length (filter isAnomaly (?ps 2.5)) = 0"
    unfolding length_filter_flags f by simp
  have d: "length (filter isAnomaly (?ps 2)) = 1"
    unfolding length_filter_flags g by simp
  show ?thesis
    unfolding detectWithZScore_scenarioB using f g c d by (simp add: anomalyResult_def)
qed






text \<open>
  With a standard deviation of 0 and any mean, a point equal to the mean scores
  \<open>NaN\<close> and is not flagged, and any other point scores infinity and is flagged.
\<close>

lemma zScorePoint_zero_deviation:
  "score (zScorePoint a 0 t (i, x)) = (if x = a then NaN else PInf) \<and>
   isAnomaly (zScorePoint a 0 t (i, x)) = (x \<noteq> a)"
  by (simp add: zScorePoint_def jgt_def)






lemma detectWithZScore_exact:
  "detectWithZScore xs t = detectWithZScoreUsing exactStatistics xs t"
  by (simp add: detectWithZScore_def detectWithZScoreUsing_def exactStatistics_def
        split: sum.splits)

lemma exactStatistics_const:
  assumes "xs \<noteq> []" and "\<forall>x\<in>set xs. x = v"
  shows "lib_mean exactStatistics xs = Inr v \<and> lib_standardDeviation exactStatistics xs = Inr 0"
  using mean_const [OF assms] standardDeviation_const [OF assms]
  by (simp add: exactStatistics_def)





section \<open>Data quality\<close>

lemma foldl_count:
  "foldl (\<lambda>k x. if P x then Suc k else k) n xs = n + length (filter P xs)"
  by (induction xs arbitrary: n) auto

lemma foldl_add:
  "foldl (\<lambda>n x. n + c x) (m::nat) xs = m + sum_list (map c xs)"
  by (induction xs arbitrary: m) auto

lemma length_filter_concat:
  "length (filter P (concat xss)) = sum_list (map (\<lambda>xs. length (filter P xs)) xss)"
  by (induction xss) auto

lemma countCells_sum:
  "countCells test rows flds =
     sum_list (map (\<lambda>r. length (filter (\<lambda>field. test (getField r field) field) flds)) rows)"
  by (simp add: countCells_def foldl_count foldl_add)

lemma countCells_filled: "countCells (\<lambda>v field. isFilled v) rows flds = filledCellCount rows flds"
proof -
  have "isFilled = (\<lambda>v. v \<noteq> JNull \<and> v \<noteq> JUndefined \<and> v \<noteq> JStr [])"
    by (rule ext) (simp add: isFilled_def)
  then have "filledCellCount rows flds =
               length (filter isFilled (concat (map (\<lambda>r. map (getField r) flds) rows)))"
    by (simp add: filledCellCount_def)
  also have "\<dots> = sum_list (map (\<lambda>r. length (filter isFilled (map (getField r) flds))) rows)"
    by (simp add: length_filter_concat comp_def)
  also have "\<dots> = sum_list (map (\<lambda>r. length (filter (\<lambda>field. isFilled (getField r field)) flds)) rows)"
    by (simp add: filter_map comp_def)
  finally show ?thesis by (simp add: countCells_sum)
qed

lemma calculateCompleteness_eq:
  "calculateCompleteness rows flds =
     jmul (jdiv (Fin (real (filledCellCount rows flds))) (Fin (real (length rows * length flds))))
       (Fin 100)"
  by (simp add: calculateCompleteness_def countCells_filled percentage_def)

lemma countOutliersFrom_total:
  assumes "\<And>xs p. xs \<noteq> [] \<Longrightarrow> \<not> isl (p_quantile pf xs p)"
  shows "\<not> isl (countOutliersFrom pf rows n flds)"
proof (induction flds arbitrary: n)
  case Nil
  then show ?case by simp
next
  case (Cons f flds)
  have "\<not> isl (fieldOutliers pf rows f)"
  proof (cases "length (numericColumn rows f) > 10")
    case True
    then have ne: "numericColumn rows f \<noteq> []" by auto
    from assms [OF ne, of "0.25"] assms [OF ne, of "0.75"] True show ?thesis
      by (auto simp: fieldOutliers_def Let_def split: sum.splits)
  next
    case False
    then show ?thesis by (simp add: fieldOutliers_def)
  qed
  then obtain k where "fieldOutliers pf rows f = Inr k" by (cases "fieldOutliers pf rows f") auto
  with Cons show ?case by simp
qed


lemma analyze_nonempty:
  assumes "\<forall>xs p. xs \<noteq> [] \<longrightarrow> \<not> isl (p_quantile pf xs p)"
    and "flds = (case rf of Some fs \<Rightarrow> fs | None \<Rightarrow> map fst r)"
  shows "\<exists>m. analyze pf (r # rows) rf = Inr m \<and>
           completeness m = calculateCompleteness (r # rows) flds"
proof -
  from assms(1) have "\<not> isl (countOutliersFrom pf (r # rows) 0 flds)"
    by (intro countOutliersFrom_total) simp
  then obtain k where "countOutliers pf (r # rows) flds = Inr k"
    unfolding countOutliers_def by (cases "countOutliersFrom pf (r # rows) 0 flds") auto
  then show ?thesis using assms(2) by (simp add: analyze_def Let_def)
qed

lemma filledCellCount_half:
  assumes "a \<noteq> b" and "isFilled v" and "isFilled w"
  shows "filledCellCount [[(a, JNull), (b, JNull)], [(a, v), (b, w)]] [a, b] = 2"
    and "filledCellCount [[(a, v), (b, w)], [(a, JNull), (b, JNull)]] [a, b] = 2"
  using assms by (simp_all add: filledCellCount_def getField_def isFilled_def)

text \<open>
  C9: for an empty record set the scorer returns metrics that are all 0. For a non-empty
  record set (the library's quantile not throwing on a non-empty sequence) it returns
  metrics whose completeness is the number of filled cells divided by the number of rows
  times the number of fields, times 100, a cell being filled when it is not \<open>null\<close>,
  not \<open>undefined\<close> and not the empty string; the fields are the required fields, or
  the keys of the first row. A record set of one row with two \<open>null\<close> fields and one
  row with the two fields filled has completeness 50, in either order of the rows.
\<close>

theorem data_quality_completeness:
  assumes "\<forall>xs p. xs \<noteq> [] \<longrightarrow> \<not> isl (p_quantile pf xs p)"
    and "flds = (case rf of Some fs \<Rightarrow> fs | None \<Rightarrow> map fst r)"
    and "a \<noteq> b" and "isFilled v" and "isFilled w"
  shows "analyze pf [] rf =
           Inr \<lparr>completeness = Fin 0, accuracy = Fin 0, consistency = Fin 0, outliers = 0,
                missingValues = 0, duplicates = 0\<rparr> \<and>
         (\<exists>m. analyze pf (r # rows) rf = Inr m \<and>
              completeness m =
                jmul (jdiv (Fin (real (filledCellCount (r # rows) flds)))
                        (Fin (real (length (r # rows) * length flds)))) (Fin 100) \<and>
              (flds \<noteq> [] \<longrightarrow>
                 completeness m =
                   Fin (real (filledCellCount (r # rows) flds)
                          / real (length (r # rows) * length flds) * 100))) \<and>
         (\<exists>m. analyze pf [[(a, JNull), (b, JNull)], [(a, v), (b, w)]] None = Inr m \<and>
              completeness m = Fin 50) \<and>
         (\<exists>m. analyze pf [[(a, v), (b, w)], [(a, JNull), (b, JNull)]] None = Inr m \<and>
              completeness m = Fin 50)"
proof -
  have e: "analyze pf [] rf =
             Inr \<lparr>completeness = Fin 0, accuracy = Fin 0, consistency = Fin 0, outliers = 0,
                  missingValues = 0, duplicates = 0\<rparr>"
    by (simp add: analyze_def getEmptyMetrics_def)
  from analyze_nonempty [OF assms(1,2)] obtain m where
    m: "analyze pf (r # rows) rf = Inr m"
       "completeness m = calculateCompleteness (r # rows) flds" by blast
  have m1: "completeness m =
              jmul (jdiv (Fin (real (filledCellCount (r # rows) flds)))
                      (Fin (real (length (r # rows) * length flds)))) (Fin 100)"
    using m(2) by (simp only: calculateCompleteness_eq)
  have m2: "flds \<noteq> [] \<longrightarrow>
              completeness m =
                Fin (real (filledCellCount (r # rows) flds)
                       / real (length (r # rows) * length flds) * 100)"
  proof
    assume "flds \<noteq> []"
    then have "0 < length (r # rows) * length flds" by simp
    then have "real (length (r # rows) * length flds) \<noteq> 0" by linarith
    then show "completeness m =
                Fin (real (filledCellCount (r # rows) flds)
                       / real (length (r # rows) * length flds) * 100)"
      unfolding m1 by (simp del: of_nat_mult length_Cons)
  qed
  have h1: "\<exists>m. analyze pf [[(a, JNull), (b, JNull)], [(a, v), (b, w)]] None = Inr m \<and>
              completeness m = Fin 50"
  proof -
    have "\<exists>m. analyze pf ([(a, JNull), (b, JNull)] # [[(a, v), (b, w)]]) None = Inr m \<and>
            completeness m =
              calculateCompleteness ([(a, JNull), (b, JNull)] # [[(a, v), (b, w)]]) [a, b]"
      by (rule analyze_nonempty [OF assms(1)]) simp
    then show ?thesis
      using filledCellCount_half(1) [OF assms(3,4,5)] by (auto simp: calculateCompleteness_eq)
  qed
  have h2: "\<exists>m. analyze pf [[(a, v), (b, w)], [(a, JNull), (b, JNull)]] None = Inr m \<and>
              completeness m = Fin 50"
  proof -
    have "\<exists>m. analyze pf ([(a, v), (b, w)] # [[(a, JNull), (b, JNull)]]) None = Inr m \<and>
            completeness m =
              calculateCompleteness ([(a, v), (b, w)] # [[(a, JNull), (b, JNull)]]) [a, b]"
      by (rule analyze_nonempty [OF assms(1)]) simp
    then show ?thesis
      using filledCellCount_half(2) [OF assms(3,4,5)] by (auto simp: calculateCompleteness_eq)
  qed
  from e m(1) m1 m2 h1 h2 show ?thesis by blast
qed

lemma nearestRank_total: "xs \<noteq> [] \<Longrightarrow> \<not> isl (nearestRank xs p)"
  by (simp add: nearestRank_def split: option.splits)

theorem data_quality_completeness_witness:
  "analyze examplePlatform [] None = Inr getEmptyMetrics \<and>
   (\<exists>m. analyze examplePlatform halfFilled None = Inr m \<and> completeness m = Fin 50 \<and>
        filledCellCount halfFilled [''name'', ''total''] = 2)"
proof -
  have q: "\<forall>xs p. xs \<noteq> [] \<longrightarrow> \<not> isl (p_quantile examplePlatform xs p)"
    by (simp add: examplePlatform_def nearestRank_total)
  have f: "[''name'', ''total''] =
             (case None of Some fs \<Rightarrow> fs | None \<Rightarrow> map fst [(''name'', JNull), (''total'', JNull)])"
    by simp
  have ab: "''name'' \<noteq> ''total''" by simp
  have v: "isFilled (JStr ''Ana'')" by (simp add: isFilled_def)
  have w: "isFilled (JNum (Fin 12))" by (simp add: isFilled_def)
  have c: "filledCellCount halfFilled [''name'', ''total''] = 2"
    by (simp add: filledCellCount_def halfFilled_def getField_def)
  from data_quality_completeness [OF q f ab v w, where rows = "[]"] c show ?thesis
    by (auto simp: halfFilled_def getEmptyMetrics_def)
qed

section \<open>Forecasting\<close>

lemma length_changesOf: "length (changesOf xs) = length xs - 1"
  by (induction xs rule: changesOf.induct) auto

lemma simpleLinearForecast_method:
  assumes "xs \<noteq> []"
  shows "\<exists>r. simpleLinearForecast xs periods conf = Inr r \<and> fmethod r = ''linear_regression''"
  using assms by (simp add: simpleLinearForecast_def calculateRSquared_def mean_def Let_def)

lemma weightedMovingAverageForecast_method:
  assumes "2 \<le> length xs"
  shows "\<exists>r. weightedMovingAverageForecast xs periods conf = Inr r \<and>
           fmethod r = ''weighted_moving_average''"
proof -
  from assms have "length (changesOf xs) \<noteq> 0" by (simp add: length_changesOf)
  then have c: "changesOf xs \<noteq> []" by simp
  from assms have x: "xs \<noteq> []" by auto
  show ?thesis
    using c x
    by (simp add: weightedMovingAverageForecast_def mean_def standardDeviation_def variance_def
          Let_def)
qed

text \<open>
  C5 (amended): \<open>ForecastingService.forecast\<close> has no minimum length. For a sequence
  of 1 to 9 values it returns a result whose method is linear regression, for 10 values
  or more a result whose method is weighted moving average, and for the empty sequence it
  fails with the error of the statistics library. Fewer than 3 points are rejected one
  layer above, by \<open>ForecastTrendsUseCase.execute\<close>, which throws its own error
  without calling the service.
\<close>

theorem forecast_method_selection:
  "(length (f_data dto) < 3 \<longrightarrow> ForecastTrends_execute svc dto = Inl insufficientData) \<and>
   (1 \<le> length xs \<and> length xs \<le> 9 \<longrightarrow>
      (\<exists>r. forecast xs periods conf = Inr r \<and> fmethod r = ''linear_regression'')) \<and>
   (10 \<le> length xs \<longrightarrow>
      (\<exists>r. forecast xs periods conf = Inr r \<and> fmethod r = ''weighted_moving_average'')) \<and>
   forecast [] periods conf = Inl (Error ''mean requires at least one data point'')"
proof -
  have a: "length (f_data dto) < 3 \<longrightarrow> ForecastTrends_execute svc dto = Inl insufficientData"
    by (simp add: ForecastTrends_execute_def)
  have b: "1 \<le> length xs \<and> length xs \<le> 9 \<longrightarrow>
             (\<exists>r. forecast xs periods conf = Inr r \<and> fmethod r = ''linear_regression'')"
  proof
    assume h: "1 \<le> length xs \<and> length xs \<le> 9"
    then have "xs \<noteq> []" by auto
    from simpleLinearForecast_method [OF this, of periods conf] h
    show "\<exists>r. forecast xs periods conf = Inr r \<and> fmethod r = ''linear_regression''"
      by (simp add: forecast_def)
  qed
  have c: "10 \<le> length xs \<longrightarrow>
             (\<exists>r. forecast xs periods conf = Inr r \<and> fmethod r = ''weighted_moving_average'')"
  proof
    assume h: "10 \<le> length xs"
    then have "2 \<le> length xs" by simp
    from weightedMovingAverageForecast_method [OF this, of periods conf] h
    show "\<exists>r. forecast xs periods conf = Inr r \<and> fmethod r = ''weighted_moving_average''"
      by (simp add: forecast_def)
  qed
  have d: "forecast [] periods conf = Inl (Error ''mean requires at least one data point'')"
    by (simp add: forecast_def simpleLinearForecast_def calculateRSquared_def mean_def Let_def)
  from a b c d show ?thesis by blast
qed

text \<open>
  C5, as the specification states it, fails: for the two-point series 1, 2 the service
  does not fail; it returns the forecasts 3, 4, 5 of the regression line.
\<close>

theorem forecast_short_counterexample:
  "forecast [1, 2] 3 0.95 =
     Inr \<lparr>forecasts = [Fin 3, Fin 4, Fin 5], fconfidence = Fin 1,
          fmethod = ''linear_regression'', ftrend = upward, mape = Fin 0\<rparr>"
  by (simp add: forecast_def simpleLinearForecast_def calculateRSquared_def mean_def Let_def
        linearRegression_def linearRegressionLine_def calculateMAPE_def jsum_def jsub_def jgt_def
        upt_rec)

theorem forecast_method_selection_witness:
  "length (f_data \<lparr>f_data = [Fin 1, Fin 2], f_periods = Fin 3, f_confidence = None\<rparr>) < 3 \<and>
   ForecastTrends_execute unusedService
     \<lparr>f_data = [Fin 1, Fin 2], f_periods = Fin 3, f_confidence = None\<rparr> = Inl insufficientData \<and>
   1 \<le> length [10, 20, 30 :: real] \<and> length [10, 20, 30 :: real] \<le> 9 \<and>
   (\<exists>r. forecast [10, 20, 30] 3 0.95 = Inr r \<and> fmethod r = ''linear_regression'') \<and>
   10 \<le> length [1, 2, 3, 4, 5, 6, 7, 8, 9, 10 :: real] \<and>
   (\<exists>r. forecast [1, 2, 3, 4, 5, 6, 7, 8, 9, 10] 3 0.95 = Inr r \<and>
        fmethod r = ''weighted_moving_average'')"
  using forecast_method_selection
    [where dto = "\<lparr>f_data = [Fin 1, Fin 2], f_periods = Fin 3, f_confidence = None\<rparr>"
       and svc = unusedService and xs = "[10, 20, 30]" and periods = 3 and conf = "0.95"]
    forecast_method_selection
    [where xs = "[1, 2, 3, 4, 5, 6, 7, 8, 9, 10]" and periods = 3 and conf = "0.95"]
  by simp


section \<open>Correlation discovery\<close>

lemma innerLoop_eq:
  "innerLoop rows f1 fs acc = acc @ concat (map (correlatePair rows f1) fs)"
  by (induction fs arbitrary: acc) auto

lemma outerLoop_eq:
  "outerLoop rows fs acc = acc @ concat (map (\<lambda>p. correlatePair rows (fst p) (snd p)) (fieldPairs fs))"
  by (induction fs arbitrary: acc) (auto simp: innerLoop_eq comp_def)

lemma correlatePair_eq:
  "correlatePair rows f1 f2 =
     (if retained rows (f1, f2) then [correlationOf rows (f1, f2)] else [])"
proof -
  have "\<And>n::nat. (3 < n) = (4 \<le> n)" by auto
  then show ?thesis
    by (simp add: correlatePair_def retained_def correlationOf_def strengthOf_def Let_def)
qed

lemma concat_map_if:
  "concat (map (\<lambda>x. if P x then [f x] else []) xs) = map f (filter P xs)"
  by (induction xs) auto

lemma findCorrelations_eq:
  "findCorrelations rows =
     take 3 (map (correlationOf rows)
               (filter (retained rows) (fieldPairs (extractNumericFields rows))))"
  by (simp add: findCorrelations_def outerLoop_eq correlatePair_eq concat_map_if)

lemma set_fieldPairs: "p \<in> set (fieldPairs fs) \<Longrightarrow> fst p \<in> set fs \<and> snd p \<in> set fs"
  by (induction fs) auto

lemma extractNumericFields_iff:
  "f \<in> set (extractNumericFields rows) \<longleftrightarrow>
     rows \<noteq> [] \<and> f \<in> fst ` set (hd rows) \<and> length rows < 2 * length (numericColumn rows f)"
proof (cases rows)
  case Nil
  then show ?thesis by (simp add: extractNumericFields_def)
next
  case (Cons r rs)
  have "\<And>(a::nat) b. (real a * 0.5 < real b) = (a < 2 * b)"
    by (simp add: field_simps) linarith
  then show ?thesis using Cons by (auto simp: extractNumericFields_def)
qed

lemma sqrt36: "sqrt 36 = 6"
  by (rule real_sqrt_unique) simp_all

lemma numberColumn_example:
  "numberColumn correlationRows ''a'' = [Fin 0, Fin 0, Fin 1, Fin 3]"
  "numberColumn correlationRows ''b'' = [Fin 0, Fin 2, Fin 3, Fin 3]"
  "numberColumn correlationRows ''c'' = [Fin 0, Fin 1, Fin 0, Fin 3]"
  by (simp_all add: numberColumn_def correlationRows_def getField_def)

lemma correlation_example:
  "calculateCorrelation [Fin 0, Fin 0, Fin 1, Fin 3] [Fin 0, Fin 2, Fin 3, Fin 3] = Fin (2/3)"
  "calculateCorrelation [Fin 0, Fin 0, Fin 1, Fin 3] [Fin 0, Fin 1, Fin 0, Fin 3] = Fin (5/6)"
  "calculateCorrelation [Fin 0, Fin 2, Fin 3, Fin 3] [Fin 0, Fin 1, Fin 0, Fin 3] = Fin (1/2)"
  by (simp_all add: calculateCorrelation_def jsum_def jsub_def Let_def sqrt36)

lemma extractNumericFields_example:
  "extractNumericFields correlationRows = [''a'', ''b'', ''c'']"
  by (simp add: extractNumericFields_def numericColumn_def correlationRows_def getField_def isNaN_def)


lemma retained_example:
  "retained correlationRows (''a'', ''b'')" "retained correlationRows (''a'', ''c'')"
  "\<not> retained correlationRows (''b'', ''c'')"
  by (simp_all add: retained_def numberColumn_example correlation_example jgt_def)

lemma findCorrelations_example:
  "findCorrelations correlationRows =
     [\<lparr>field1 = ''a'', field2 = ''b'', coefficient = Fin (2/3), strength = ''moderada''\<rparr>,
      \<lparr>field1 = ''a'', field2 = ''c'', coefficient = Fin (5/6), strength = ''fuerte''\<rparr>]"
  by (simp add: findCorrelations_eq extractNumericFields_example retained_example
        correlationOf_def numberColumn_example correlation_example jgt_def)

text \<open>
  C8, as the specification states it, fails: on four rows with the numeric fields a, b
  and c the result lists the pair a, b with coefficient 2/3 before the pair a, c with
  coefficient 5/6, so it is not ordered by decreasing coefficient; and the pair b, c,
  whose coefficient is exactly 1/2 with four values in each field, is not retained.
\<close>

theorem correlation_counterexample:
  "map field1 (findCorrelations correlationRows) = [''a'', ''a''] \<and>
   map field2 (findCorrelations correlationRows) = [''b'', ''c''] \<and>
   map coefficient (findCorrelations correlationRows) = [Fin (2/3), Fin (5/6)] \<and>
   jlt (Fin (2/3)) (Fin (5/6)) \<and>
   extractNumericFields correlationRows = [''a'', ''b'', ''c''] \<and>
   length (numberColumn correlationRows ''b'') = 4 \<and>
   length (numberColumn correlationRows ''c'') = 4 \<and>
   calculateCorrelation (numberColumn correlationRows ''b'') (numberColumn correlationRows ''c'')
     = Fin (1/2)"
  by (simp add: findCorrelations_example extractNumericFields_example numberColumn_example
        correlation_example)

text \<open>
  C8 (amended): for every record set, correlation discovery considers the pairs of the
  fields classified as numeric, the earlier field first (a key of the first row is
  numeric when more than half of the rows hold a number other than \<open>NaN\<close>); it
  retains the pairs in which each field has at least 4 values of type number and the
  coefficient computed by \<open>calculateCorrelation\<close> is strictly greater than 0.5 in
  absolute value; it labels the strength strong above 0.8, moderate above 0.6 and weak
  otherwise; and it returns at most 3 of the retained pairs, the first ones in the order
  of enumeration.
\<close>

theorem correlation_discovery:
  "findCorrelations rows =
     take 3 (map (correlationOf rows)
               (filter (retained rows) (fieldPairs (extractNumericFields rows)))) \<and>
   (\<forall>f. f \<in> set (extractNumericFields rows) \<longleftrightarrow>
      rows \<noteq> [] \<and> f \<in> fst ` set (hd rows) \<and> length rows < 2 * length (numericColumn rows f)) \<and>
   length (findCorrelations rows) \<le> 3 \<and>
   (\<forall>c\<in>set (findCorrelations rows).
      field1 c \<in> set (extractNumericFields rows) \<and>
      field2 c \<in> set (extractNumericFields rows) \<and>
      4 \<le> length (numberColumn rows (field1 c)) \<and>
      4 \<le> length (numberColumn rows (field2 c)) \<and>
      coefficient c =
        calculateCorrelation (numberColumn rows (field1 c)) (numberColumn rows (field2 c)) \<and>
      jgt (jabs (coefficient c)) (Fin 0.5) \<and>
      strength c =
        (if jgt (jabs (coefficient c)) (Fin 0.8) then ''fuerte''
         else if jgt (jabs (coefficient c)) (Fin 0.6) then ''moderada''
         else ''d'' @ [CHR 0xE9] @ ''bil''))"
proof -
  let ?ps = "filter (retained rows) (fieldPairs (extractNumericFields rows))"
  have a: "findCorrelations rows = take 3 (map (correlationOf rows) ?ps)"
    by (rule findCorrelations_eq)
  have b: "\<forall>f. f \<in> set (extractNumericFields rows) \<longleftrightarrow>
             rows \<noteq> [] \<and> f \<in> fst ` set (hd rows) \<and>
             length rows < 2 * length (numericColumn rows f)"
    using extractNumericFields_iff by blast
  have c: "length (findCorrelations rows) \<le> 3"
    unfolding a by simp
  have d: "\<forall>c\<in>set (findCorrelations rows).
      field1 c \<in> set (extractNumericFields rows) \<and>
      field2 c \<in> set (extractNumericFields rows) \<and>
      4 \<le> length (numberColumn rows (field1 c)) \<and>
      4 \<le> length (numberColumn rows (field2 c)) \<and>
      coefficient c =
        calculateCorrelation (numberColumn rows (field1 c)) (numberColumn rows (field2 c)) \<and>
      jgt (jabs (coefficient c)) (Fin 0.5) \<and>
      strength c =
        (if jgt (jabs (coefficient c)) (Fin 0.8) then ''fuerte''
         else if jgt (jabs (coefficient c)) (Fin 0.6) then ''moderada''
         else ''d'' @ [CHR 0xE9] @ ''bil'')"
  proof
    fix c assume "c \<in> set (findCorrelations rows)"
    then have "c \<in> set (map (correlationOf rows) ?ps)"
      unfolding a by (rule in_set_takeD)
    then obtain p where p: "p \<in> set (fieldPairs (extractNumericFields rows))"
      "retained rows p" "c = correlationOf rows p" by auto
    from set_fieldPairs [OF p(1)] p(2)
    show "field1 c \<in> set (extractNumericFields rows) \<and>
      field2 c \<in> set (extractNumericFields rows) \<and>
      4 \<le> length (numberColumn rows (field1 c)) \<and>
      4 \<le> length (numberColumn rows (field2 c)) \<and>
      coefficient c =
        calculateCorrelation (numberColumn rows (field1 c)) (numberColumn rows (field2 c)) \<and>
      jgt (jabs (coefficient c)) (Fin 0.5) \<and>
      strength c =
        (if jgt (jabs (coefficient c)) (Fin 0.8) then ''fuerte''
         else if jgt (jabs (coefficient c)) (Fin 0.6) then ''moderada''
         else ''d'' @ [CHR 0xE9] @ ''bil'')"
      unfolding p(3) by (simp add: correlationOf_def retained_def Let_def)
  qed
  from a b c d show ?thesis by blast
qed

theorem correlation_discovery_witness:
  "length (findCorrelations correlationRows) \<le> 3 \<and>
   findCorrelations correlationRows =
     [\<lparr>field1 = ''a'', field2 = ''b'', coefficient = Fin (2/3), strength = ''moderada''\<rparr>,
      \<lparr>field1 = ''a'', field2 = ''c'', coefficient = Fin (5/6), strength = ''fuerte''\<rparr>]"
proof -
  from correlation_discovery [of correlationRows]
  have "length (findCorrelations correlationRows) \<le> 3" by blast
  with findCorrelations_example show ?thesis by simp
qed

section \<open>Analysis job\<close>

lemma keepsD: "keeps P st \<Longrightarrow> P s \<Longrightarrow> st s = (x, s') \<Longrightarrow> P s'"
  unfolding keeps_def by blast

lemma keeps_andThen:
  assumes "keeps P f" and "keeps P g"
  shows "keeps P (andThen f g)"
  unfolding keeps_def
proof (intro allI impI)
  fix s x s' assume p: "P s" and r: "andThen f g s = (x, s')"
  obtain y t where f: "f s = (y, t)" by (cases "f s")
  from keepsD [OF assms(1) p f] have t: "P t" .
  show "P s'"
  proof (cases y)
    case None
    with r f have "g t = (x, s')" by (simp add: andThen_def)
    from keepsD [OF assms(2) t this] show ?thesis .
  next
    case (Some e)
    with r f have "s' = t" by (simp add: andThen_def)
    with t show ?thesis by simp
  qed
qed

lemma keeps_progress: "keeps P (progress cs st n)"
  by (simp add: keeps_def progress_def)

lemma keeps_skip: "keeps P (\<lambda>s. (None, s))"
  by (simp add: keeps_def)

lemma analyzing_pushInsights: "analyzing i a (pushInsights is s) = analyzing i a s"
  by (simp add: analyzing_def pushInsights_def)

lemma keeps_stageQuality: "keeps (analyzing i a) (stageQuality cs now rows)"
  unfolding stageQuality_def
proof (rule keeps_andThen [OF keeps_progress])
  show "keeps (analyzing i a)
          (\<lambda>s. case c_analyze cs rows of
                  Inl e \<Rightarrow> (Some e, s)
                | Inr q \<Rightarrow>
                    (None,
                     pushInsights (if jlt (completeness q) (Fin 90) then [qualityInsight cs now q] else [])
                       (s\<lparr>ts_report := setDataQuality q (ts_report s)\<rparr>)))"
    unfolding keeps_def
    by (cases "c_analyze cs rows")
       (auto simp: analyzing_pushInsights, auto simp: analyzing_def setDataQuality_def)
qed

lemma keeps_anomalyLoop: "keeps (analyzing i a) (anomalyLoop cs now rows flds)"
  unfolding keeps_def
proof (intro allI impI)
  fix s x s'
  show "analyzing i a s \<Longrightarrow> anomalyLoop cs now rows flds s = (x, s') \<Longrightarrow> analyzing i a s'"
  proof (induction flds arbitrary: s)
    case Nil
    then show ?case by simp
  next
    case (Cons f flds)
    show ?case
    proof (cases "length (numberColumn rows f) > 10")
      case False
      with Cons show ?thesis by simp
    next
      case True
      show ?thesis
      proof (cases "c_detectAnomalies cs (numberColumn rows f) 2.5 ''zscore''")
        case (Inl e)
        with True Cons.prems show ?thesis by simp
      next
        case (Inr result)
        let ?t = "if anomalyCount result > 0
                  then pushInsights [anomalyInsight cs now f result] s else s"
        from Cons.prems(1) have "analyzing i a ?t" by (simp add: analyzing_pushInsights)
        moreover from True Inr Cons.prems(2)
        have "anomalyLoop cs now rows flds ?t = (x, s')" by simp
        ultimately show ?thesis by (rule Cons.IH)
      qed
    qed
  qed
qed

lemma keeps_forecastLoop: "keeps (analyzing i a) (forecastLoop cs now rows flds)"
  unfolding keeps_def
proof (intro allI impI)
  fix s x s'
  show "analyzing i a s \<Longrightarrow> forecastLoop cs now rows flds s = (x, s') \<Longrightarrow> analyzing i a s'"
  proof (induction flds arbitrary: s)
    case Nil
    then show ?case by simp
  next
    case (Cons f flds)
    show ?case
    proof (cases "length (numberColumn rows f) \<ge> 5")
      case False
      with Cons show ?thesis by simp
    next
      case True
      show ?thesis
      proof (cases "c_forecast cs (numberColumn rows f) 3 0.95")
        case (Inl e)
        with True Cons.prems show ?thesis by simp
      next
        case (Inr fc)
        let ?t = "pushInsights [forecastInsight now f fc] s"
        from Cons.prems(1) have "analyzing i a ?t" by (simp add: analyzing_pushInsights)
        moreover from True Inr Cons.prems(2)
        have "forecastLoop cs now rows flds ?t = (x, s')" by simp
        ultimately show ?thesis by (rule Cons.IH)
      qed
    qed
  qed
qed

lemma keeps_stageAnomalies: "keeps (analyzing i a) (stageAnomalies cs now flag rows)"
  by (simp add: stageAnomalies_def keeps_andThen keeps_progress keeps_anomalyLoop keeps_skip)

lemma keeps_stageForecast: "keeps (analyzing i a) (stageForecast cs now flag rows)"
  by (simp add: stageForecast_def keeps_andThen keeps_progress keeps_forecastLoop keeps_skip)

lemma analyzing_addKPISuggestions:
  "analyzing i a (s\<lparr>ts_report := addKPISuggestions kpis (ts_report s)\<rparr>) = analyzing i a s"
  by (simp add: analyzing_def addKPISuggestions_def)

lemma keeps_stageKPIs: "keeps (analyzing i a) (stageKPIs cs now flag)"
proof (cases "flag = Some True")
  case False
  then show ?thesis by (simp add: stageKPIs_def keeps_skip)
next
  case True
  have "keeps (analyzing i a)
          (\<lambda>s. case c_suggestKPIs cs
                       (case dataSource (metadata (ts_report s)) of
                          None \<Rightarrow> ''unknown''
                        | Some d \<Rightarrow> if d = [] then ''unknown'' else d)
                       (mdescription (metadata (ts_report s))) 3 of
                  Inl e \<Rightarrow> (None, s)
                | Inr kpis \<Rightarrow>
                    if length kpis > 0
                    then (None, pushInsights [kpiInsight now kpis]
                                  (s\<lparr>ts_report := addKPISuggestions kpis (ts_report s)\<rparr>))
                    else (None, s))"
    unfolding keeps_def
    by (auto simp: analyzing_pushInsights analyzing_addKPISuggestions split: sum.splits)
  with True show ?thesis
    by (simp add: stageKPIs_def keeps_andThen keeps_progress)
qed

lemma keeps_stageCorrelations: "keeps (analyzing i a) (stageCorrelations cs now rows)"
  unfolding stageCorrelations_def
  by (rule keeps_andThen [OF keeps_progress]) (simp add: keeps_def analyzing_pushInsights)

lemma stageStart_analyzing:
  assumes "connected db" and "docs db i = Some doc"
  shows "\<exists>s1. stageStart \<lparr>ts_report = doc\<lparr>rid := i\<rparr>, ts_insights = [], ts_db = db\<rparr> = (None, s1) \<and>
           analyzing i (aiInsights (metadata doc)) s1"
  using assms by (simp add: stageStart_def update_def markAsAnalyzing_def analyzing_def Let_def)

lemma analysisSteps_analyzing:
  assumes "connected db" and "docs db i = Some doc"
    and "analysisSteps cs now job \<lparr>ts_report = doc\<lparr>rid := i\<rparr>, ts_insights = [], ts_db = db\<rparr> = (x, s)"
  shows "analyzing i (aiInsights (metadata doc)) s"
proof -
  let ?rest = "andThen (stageQuality cs now (j_data job))
          (andThen (stageAnomalies cs now (j_enableAnomalyDetection job) (j_data job))
             (andThen (stageForecast cs now (j_enableForecasting job) (j_data job))
                (andThen (stageKPIs cs now (j_enableKPISuggestions job))
                   (stageCorrelations cs now (j_data job)))))"
  from stageStart_analyzing [OF assms(1,2)] obtain s1 where
    s1: "stageStart \<lparr>ts_report = doc\<lparr>rid := i\<rparr>, ts_insights = [], ts_db = db\<rparr> = (None, s1)"
        "analyzing i (aiInsights (metadata doc)) s1" by blast
  have k: "keeps (analyzing i (aiInsights (metadata doc))) ?rest"
    by (intro keeps_andThen keeps_stageQuality keeps_stageAnomalies keeps_stageForecast
          keeps_stageKPIs keeps_stageCorrelations)
  from assms(3) s1(1) have "?rest s1 = (x, s)"
    by (simp add: analysisSteps_def andThen_def)
  from keepsD [OF k s1(2) this] show ?thesis .
qed

text \<open>
  C4 (amended): if a step of the analysis job throws before the correlation step
  completes (the report exists and the repository is connected), the job still ends
  without an error; the report is stored as the steps had left it, with the data quality
  and the KPI suggestions set so far, with status \<open>ANALYZING\<close> and not \<open>FAILED\<close>,
  and with the insights it had before the job.
\<close>

theorem analysis_failure_contained:
  assumes "connected db" and "docs db (j_reportId job) = Some doc"
    and "analysisSteps cs now job
           \<lparr>ts_report = doc\<lparr>rid := j_reportId job\<rparr>, ts_insights = [], ts_db = db\<rparr> = (Some e, s)"
  shows "\<exists>db'. processAnalysis cs now job db = (None, db') \<and>
           docs db' (j_reportId job) = Some (ts_report s) \<and>
           status (ts_report s) = ANALYZING \<and>
           aiInsights (metadata (ts_report s)) = aiInsights (metadata doc)"
proof -
  let ?i = "j_reportId job"
  let ?s0 = "\<lparr>ts_report = doc\<lparr>rid := ?i\<rparr>, ts_insights = [], ts_db = db\<rparr>"
  from analysisSteps_analyzing [OF assms] have a: "analyzing ?i (aiInsights (metadata doc)) s" .
  have f: "findById ?i db = Inr (Some (doc\<lparr>rid := ?i\<rparr>))"
    using assms(1,2) by (simp add: findById_def)
  have t: "tryBlock cs now job ?s0 = (Some e, s)"
    using assms(3) by (simp add: tryBlock_def andThen_def)
  let ?db' = "(ts_db s)\<lparr>docs := (docs (ts_db s))(?i \<mapsto> ts_report s)\<rparr>"
  have u: "update (ts_report s) (ts_db s) = Inr ?db'"
    using a by (auto simp: update_def analyzing_def)
  have "processAnalysis cs now job db = (None, ?db')"
    by (simp add: processAnalysis_def f t u)
  moreover have "docs ?db' ?i = Some (ts_report s)" by simp
  ultimately show ?thesis using a by (auto simp: analyzing_def)
qed


lemma analyze_halfFilled:
  "\<exists>m. analyze examplePlatform halfFilled None = Inr m \<and> completeness m = Fin 50"
proof -
  have q: "\<forall>xs p. xs \<noteq> [] \<longrightarrow> \<not> isl (p_quantile examplePlatform xs p)"
    by (simp add: examplePlatform_def nearestRank_total)
  have "\<exists>m. analyze examplePlatform
               ([(''name'', JNull), (''total'', JNull)]
                  # [[(''name'', JStr ''Ana''), (''total'', JNum (Fin 12))]]) None = Inr m \<and>
            completeness m =
              calculateCompleteness
                ([(''name'', JNull), (''total'', JNull)]
                   # [[(''name'', JStr ''Ana''), (''total'', JNum (Fin 12))]]) [''name'', ''total'']"
    by (rule analyze_nonempty [OF q]) simp
  moreover have "filledCellCount halfFilled [''name'', ''total''] = 2"
    by (simp add: filledCellCount_def halfFilled_def getField_def)
  ultimately show ?thesis
    by (auto simp: calculateCompleteness_eq halfFilled_def)
qed

lemma analysisSteps_example:
  "\<exists>m. analysisSteps lostConnection 5000 exampleJob
          \<lparr>ts_report = exampleReport\<lparr>rid := ''r1''\<rparr>, ts_insights = [], ts_db = exampleRepo\<rparr>
        = (Some (Error ''Connection is closed.''),
           \<lparr>ts_report = setDataQuality m (markAsAnalyzing exampleReport),
            ts_insights = [qualityInsight lostConnection 5000 m],
            ts_db = exampleRepo\<lparr>docs := (docs exampleRepo)(''r1'' \<mapsto> markAsAnalyzing exampleReport)\<rparr>\<rparr>)"
proof -
  from analyze_halfFilled obtain m where
    m: "analyze examplePlatform halfFilled None = Inr m" "completeness m = Fin 50" by blast
  have r: "exampleReport\<lparr>rid := ''r1''\<rparr> = exampleReport" by (simp add: exampleReport_def)
  have i: "rid (markAsAnalyzing exampleReport) = ''r1''"
    by (simp add: markAsAnalyzing_def exampleReport_def)
  have s: "stageStart \<lparr>ts_report = exampleReport, ts_insights = [], ts_db = exampleRepo\<rparr> =
             (None, \<lparr>ts_report = markAsAnalyzing exampleReport, ts_insights = [],
                     ts_db = exampleRepo\<lparr>docs := (docs exampleRepo)(''r1'' \<mapsto> markAsAnalyzing exampleReport)\<rparr>\<rparr>)"
    by (simp add: stageStart_def update_def i Let_def) (simp add: exampleRepo_def)
  have c: "c_analyze lostConnection halfFilled = Inr m"
    by (simp add: lostConnection_def m(1))
  have p10: "c_updateProgress lostConnection ''quality_analysis'' 10 = None"
    by (simp add: lostConnection_def)
  have p30: "c_updateProgress lostConnection ''anomaly_detection'' 30 = Some (Error ''Connection is closed.'')"
    by (simp add: lostConnection_def)
  have "analysisSteps lostConnection 5000 exampleJob
          \<lparr>ts_report = exampleReport, ts_insights = [], ts_db = exampleRepo\<rparr>
        = (Some (Error ''Connection is closed.''),
           \<lparr>ts_report = setDataQuality m (markAsAnalyzing exampleReport),
            ts_insights = [qualityInsight lostConnection 5000 m],
            ts_db = exampleRepo\<lparr>docs := (docs exampleRepo)(''r1'' \<mapsto> markAsAnalyzing exampleReport)\<rparr>\<rparr>)"
    by (simp add: analysisSteps_def andThen_def s stageQuality_def progress_def p10 p30 c m(2)
          exampleJob_def stageAnomalies_def pushInsights_def)
  with r show ?thesis by auto
qed


text \<open>
  C4, as the specification states it, fails: a job whose quality step has put one insight
  in the local list and whose next progress report throws ends without an error, and the
  report it stores has no insight.
\<close>

theorem analysis_failure_counterexample:
  "fst (analysisSteps lostConnection 5000 exampleJob
          \<lparr>ts_report = exampleReport\<lparr>rid := ''r1''\<rparr>, ts_insights = [], ts_db = exampleRepo\<rparr>)
     = Some (Error ''Connection is closed.'') \<and>
   map title (ts_insights (snd (analysisSteps lostConnection 5000 exampleJob
          \<lparr>ts_report = exampleReport\<lparr>rid := ''r1''\<rparr>, ts_insights = [], ts_db = exampleRepo\<rparr>)))
     = [''Calidad de Datos Baja''] \<and>
   fst (processAnalysis lostConnection 5000 exampleJob exampleRepo) = None \<and>
   map_option (aiInsights \<circ> metadata)
     (docs (snd (processAnalysis lostConnection 5000 exampleJob exampleRepo)) ''r1'') = Some None"
proof -
  let ?s0 = "\<lparr>ts_report = exampleReport\<lparr>rid := ''r1''\<rparr>, ts_insights = [], ts_db = exampleRepo\<rparr>"
  from analysisSteps_example obtain m s where
    st: "analysisSteps lostConnection 5000 exampleJob ?s0 = (Some (Error ''Connection is closed.''), s)"
    and s: "s = \<lparr>ts_report = setDataQuality m (markAsAnalyzing exampleReport),
                 ts_insights = [qualityInsight lostConnection 5000 m],
                 ts_db = exampleRepo\<lparr>docs := (docs exampleRepo)(''r1'' \<mapsto> markAsAnalyzing exampleReport)\<rparr>\<rparr>"
    by blast
  have a: "connected exampleRepo" by (simp add: exampleRepo_def)
  have b: "docs exampleRepo (j_reportId exampleJob) = Some exampleReport"
    by (simp add: exampleRepo_def exampleJob_def)
  have j: "j_reportId exampleJob = ''r1''" by (simp add: exampleJob_def)
  let ?r = "setDataQuality m (markAsAnalyzing exampleReport)"
  let ?db = "exampleRepo\<lparr>docs := (docs exampleRepo)(''r1'' \<mapsto> markAsAnalyzing exampleReport)\<rparr>"
  let ?db' = "?db\<lparr>docs := (docs ?db)(''r1'' \<mapsto> ?r)\<rparr>"
  have f: "findById ''r1'' exampleRepo = Inr (Some (exampleReport\<lparr>rid := ''r1''\<rparr>))"
    by (simp add: findById_def exampleRepo_def)
  have tb: "tryBlock lostConnection 5000 exampleJob ?s0 = (Some (Error ''Connection is closed.''), s)"
    using st by (simp add: tryBlock_def andThen_def)
  have i: "rid ?r = ''r1''"
    by (simp add: setDataQuality_def markAsAnalyzing_def exampleReport_def)
  have u: "update (ts_report s) (ts_db s) = Inr ?db'"
    by (simp add: s update_def i a)
  have p: "processAnalysis lostConnection 5000 exampleJob exampleRepo = (None, ?db')"
    by (simp add: processAnalysis_def j f tb u)
  have d: "docs ?db' ''r1'' = Some ?r" by simp
  have q: "aiInsights (metadata ?r) = aiInsights (metadata exampleReport)"
    by (simp add: setDataQuality_def markAsAnalyzing_def)
  have n: "aiInsights (metadata exampleReport) = None"
    by (simp add: exampleReport_def exampleMetadata_def)
  have t: "map title (ts_insights s) = [''Calidad de Datos Baja'']"
    by (simp add: s qualityInsight_def)
  from st p d q n t show ?thesis by simp
qed

theorem analysis_failure_contained_witness:
  "connected exampleRepo \<and> docs exampleRepo (j_reportId exampleJob) = Some exampleReport \<and>
   fst (analysisSteps lostConnection 5000 exampleJob
          \<lparr>ts_report = exampleReport\<lparr>rid := j_reportId exampleJob\<rparr>, ts_insights = [],
           ts_db = exampleRepo\<rparr>)
     = Some (Error ''Connection is closed.'') \<and>
   (\<exists>db'. processAnalysis lostConnection 5000 exampleJob exampleRepo = (None, db') \<and>
          map_option status (docs db' ''r1'') = Some ANALYZING \<and>
          map_option (aiInsights \<circ> metadata) (docs db' ''r1'') = Some None)"
proof -
  let ?s0 = "\<lparr>ts_report = exampleReport\<lparr>rid := j_reportId exampleJob\<rparr>, ts_insights = [],
              ts_db = exampleRepo\<rparr>"
  have j: "j_reportId exampleJob = ''r1''" by (simp add: exampleJob_def)
  from analysisSteps_example j obtain s where
    st: "analysisSteps lostConnection 5000 exampleJob ?s0 = (Some (Error ''Connection is closed.''), s)"
    by auto
  have a: "connected exampleRepo" by (simp add: exampleRepo_def)
  have b: "docs exampleRepo (j_reportId exampleJob) = Some exampleReport"
    by (simp add: exampleRepo_def exampleJob_def)
  have n: "aiInsights (metadata exampleReport) = None"
    by (simp add: exampleReport_def exampleMetadata_def)
  from analysis_failure_contained [OF a b st] a b st j n show ?thesis by auto
qed

end
